theory Spec2Isabelle
  imports Main
begin

section \<open>Constants and settings (pong\_game.py, lines 31--41)\<close>

definition SCREEN_WIDTH :: int where "SCREEN_WIDTH = 800"
definition SCREEN_HEIGHT :: int where "SCREEN_HEIGHT = 600"
definition PADDLE_WIDTH :: nat where "PADDLE_WIDTH = 20"
definition PADDLE_HEIGHT :: nat where "PADDLE_HEIGHT = 100"
definition BALL_SIZE :: nat where "BALL_SIZE = 20"
definition PLAYER_SPEED :: int where "PLAYER_SPEED = 7"
definition COMP_SPEED :: int where "COMP_SPEED = 6"
definition STARTING_LIVES :: int where "STARTING_LIVES = 3"

section \<open>Rectangles of the graphics library\<close>

text \<open>
  A rectangle is a top-left corner with a width and a height. All rectangles of the game
  come from \<open>image.get_rect()\<close>, whose sizes are the non-negative sizes of a surface
  and are never assigned afterwards, so the sizes are natural numbers. The derived
  attributes the game reads and writes are \<open>top\<close>, \<open>bottom\<close>, \<open>left\<close>,
  \<open>right\<close>, \<open>centery\<close> and \<open>center\<close>; assigning one of them moves the
  rectangle and keeps its size.
\<close>

record Rect =
  rect_x :: int
  rect_y :: int
  rect_w :: nat
  rect_h :: nat

definition rect_top :: "Rect \<Rightarrow> int" where
  "rect_top r = rect_y r"

definition rect_bottom :: "Rect \<Rightarrow> int" where
  "rect_bottom r = rect_y r + int (rect_h r)"

definition rect_left :: "Rect \<Rightarrow> int" where
  "rect_left r = rect_x r"

definition rect_right :: "Rect \<Rightarrow> int" where
  "rect_right r = rect_x r + int (rect_w r)"

definition rect_centerx :: "Rect \<Rightarrow> int" where
  "rect_centerx r = rect_x r + int (rect_w r) div 2"

definition rect_centery :: "Rect \<Rightarrow> int" where
  "rect_centery r = rect_y r + int (rect_h r) div 2"

definition rect_center :: "Rect \<Rightarrow> int \<times> int" where
  "rect_center r = (rect_centerx r, rect_centery r)"

definition set_top :: "int \<Rightarrow> Rect \<Rightarrow> Rect" where
  "set_top v r = r\<lparr>rect_y := v\<rparr>"

definition set_bottom :: "int \<Rightarrow> Rect \<Rightarrow> Rect" where
  "set_bottom v r = r\<lparr>rect_y := v - int (rect_h r)\<rparr>"

definition set_center :: "int \<times> int \<Rightarrow> Rect \<Rightarrow> Rect" where
  "set_center c r =
     r\<lparr>rect_x := fst c - int (rect_w r) div 2, rect_y := snd c - int (rect_h r) div 2\<rparr>"

text \<open>
  \<open>colliderect\<close>: two rectangles overlap when they share interior area; rectangles that
  only touch along an edge do not, and a rectangle of zero width or height overlaps nothing.
\<close>

definition colliderect :: "Rect \<Rightarrow> Rect \<Rightarrow> bool" where
  "colliderect a b =
     (if rect_w a = 0 \<or> rect_h a = 0 \<or> rect_w b = 0 \<or> rect_h b = 0 then False
      else rect_left a < rect_right b \<and> rect_top a < rect_bottom b
         \<and> rect_right a > rect_left b \<and> rect_bottom a > rect_top b)"

section \<open>Sprite images\<close>

text \<open>
  Only the size of an image matters to the simulation. The three optional sprite files are
  inputs of the program: \<open>Some (w, h)\<close> is a file that loads with that size,
  \<open>None\<close> a file that is missing or unreadable, for which \<open>load_sprite\<close> returns
  a surface of the fallback size.
\<close>

record assets =
  player_png :: "(nat \<times> nat) option"
  computer_png :: "(nat \<times> nat) option"
  ball_png :: "(nat \<times> nat) option"

definition load_sprite :: "(nat \<times> nat) option \<Rightarrow> nat \<times> nat \<Rightarrow> nat \<times> nat" where
  "load_sprite file fallback_size =
     (case file of Some surface \<Rightarrow> surface | None \<Rightarrow> fallback_size)"

definition get_rect :: "nat \<times> nat \<Rightarrow> Rect" where
  "get_rect surface =
     \<lparr>rect_x = 0, rect_y = 0, rect_w = fst surface, rect_h = snd surface\<rparr>"

definition no_assets :: assets where
  "no_assets = \<lparr>player_png = None, computer_png = None, ball_png = None\<rparr>"

section \<open>The sprite classes\<close>

record Sprite =
  rect :: Rect

record Paddle = Sprite +
  is_player :: bool

record Ball = Sprite +
  speed_x :: int
  speed_y :: int

subsection \<open>Paddle (lines 78--97)\<close>

definition Paddle_init :: "assets \<Rightarrow> int \<Rightarrow> int \<Rightarrow> bool \<Rightarrow> Paddle" where
  "Paddle_init files x y isp =
     (let surface = (if isp then load_sprite (player_png files) (PADDLE_WIDTH, PADDLE_HEIGHT)
                     else load_sprite (computer_png files) (PADDLE_WIDTH, PADDLE_HEIGHT))
      in \<lparr>rect = (get_rect surface)\<lparr>rect_x := x, rect_y := y\<rparr>, is_player = isp\<rparr>)"

definition Paddle_update :: "int \<Rightarrow> Paddle \<Rightarrow> Paddle" where
  "Paddle_update dy p =
     (let r1 = (rect p)\<lparr>rect_y := rect_y (rect p) + dy\<rparr>;
          r2 = (if rect_top r1 < 0 then set_top 0 r1 else r1);
          r3 = (if rect_bottom r2 > SCREEN_HEIGHT then set_bottom SCREEN_HEIGHT r2 else r2)
      in p\<lparr>rect := r3\<rparr>)"

text \<open>
  The graphics library stores the coordinates of a rectangle as C ints. Assigning a value
  outside the range of an int raises \<open>TypeError\<close>, and a derived attribute such as
  \<open>bottom\<close> is computed in int arithmetic, where a sum beyond the range wraps around.
  \<open>Paddle_update\<close> above is the method on unbounded integers, which is how the main
  loop below uses it; \<open>Paddle_update_c\<close> is the method as it runs on the stored ints:
  the assignment of \<open>rect.y + dy\<close> fails outside the range, and the comparison of
  \<open>rect.bottom\<close> reads the wrapped sum. The two agree whenever the moved top and the
  moved bottom fit an int, as they do for every displacement the loop passes to a paddle
  inside the field.
\<close>

definition INT_MIN :: int where "INT_MIN = - 2147483648"
definition INT_MAX :: int where "INT_MAX = 2147483647"

definition c_int :: "int \<Rightarrow> bool" where
  "c_int v = (INT_MIN \<le> v \<and> v \<le> INT_MAX)"

definition c_int_wrap :: "int \<Rightarrow> int" where
  "c_int_wrap v = (v - INT_MIN) mod 4294967296 + INT_MIN"

datatype py_error = TypeError

definition Paddle_update_c :: "int \<Rightarrow> Paddle \<Rightarrow> py_error + Paddle" where
  "Paddle_update_c dy p =
     (if c_int (rect_y (rect p) + dy)
      then
        (let r1 = (rect p)\<lparr>rect_y := rect_y (rect p) + dy\<rparr>;
             r2 = (if rect_top r1 < 0 then set_top 0 r1 else r1);
             r3 = (if c_int_wrap (rect_bottom r2) > SCREEN_HEIGHT
                   then set_bottom SCREEN_HEIGHT r2 else r2)
         in Inr (p\<lparr>rect := r3\<rparr>))
      else Inl TypeError)"

subsection \<open>Ball (lines 102--124)\<close>

text \<open>
  \<open>random.choice([-1, 1])\<close> picks one of the two list elements; the pick is an input
  of the model, so that every outcome of the random source is covered.
\<close>

datatype pick = Neg | Pos

fun random_choice :: "pick \<Rightarrow> int" where
  "random_choice Neg = - 1"
| "random_choice Pos = 1"

definition Ball_reset :: "pick \<times> pick \<Rightarrow> Ball \<Rightarrow> Ball" where
  "Ball_reset picks b =
     (let dir_x = random_choice (fst picks);
          dir_y = random_choice (snd picks)
      in b\<lparr>rect := set_center (SCREEN_WIDTH div 2, SCREEN_HEIGHT div 2) (rect b),
           speed_x := 7 * dir_x,
           speed_y := 7 * dir_y\<rparr>)"

text \<open>
  The constructor takes the rectangle of the image and calls \<open>reset\<close>, which sets both
  speeds for the first time (the zeros below are overwritten).
\<close>

definition Ball_init :: "assets \<Rightarrow> pick \<times> pick \<Rightarrow> Ball" where
  "Ball_init files picks =
     Ball_reset picks
       \<lparr>rect = get_rect (load_sprite (ball_png files) (BALL_SIZE, BALL_SIZE)),
        speed_x = 0, speed_y = 0\<rparr>"

definition Ball_update :: "Ball \<Rightarrow> Ball" where
  "Ball_update b =
     (let r = (rect b)\<lparr>rect_x := rect_x (rect b) + speed_x b,
                       rect_y := rect_y (rect b) + speed_y b\<rparr>;
          b1 = b\<lparr>rect := r\<rparr>
      in if rect_top r \<le> 0 \<or> rect_bottom r \<ge> SCREEN_HEIGHT
         then b1\<lparr>speed_y := speed_y b1 * (- 1)\<rparr>
         else b1)"

section \<open>Game variables and the main loop (lines 129--211)\<close>

record game =
  player_paddle :: Paddle
  comp_paddle :: Paddle
  ball :: Ball
  player_score :: int
  player_lives :: int
  comp_score :: int
  comp_lives :: int
  running :: bool

definition init_game :: "assets \<Rightarrow> pick \<times> pick \<Rightarrow> game" where
  "init_game files picks =
     \<lparr>player_paddle =
        Paddle_init files 30 (SCREEN_HEIGHT div 2 - int PADDLE_HEIGHT div 2) True,
      comp_paddle =
        Paddle_init files (SCREEN_WIDTH - 30 - int PADDLE_WIDTH)
          (SCREEN_HEIGHT div 2 - int PADDLE_HEIGHT div 2) False,
      ball = Ball_init files picks,
      player_score = 0,
      player_lives = STARTING_LIVES,
      comp_score = 0,
      comp_lives = STARTING_LIVES,
      running = True\<rparr>"

text \<open>
  What one iteration of the loop reads from outside: whether a QUIT event is queued, the
  state of the two arrow keys, and one pick for each place that draws from the random
  source (each place runs at most once per iteration).
\<close>

record frame =
  ev_quit :: bool
  key_up :: bool
  key_down :: bool
  pick_player_hit :: pick
  pick_comp_hit :: pick
  picks_left_exit :: "pick \<times> pick"
  picks_right_exit :: "pick \<times> pick"

text \<open>Event processing (lines 162--164).\<close>

definition process_events :: "frame \<Rightarrow> game \<Rightarrow> game" where
  "process_events f g = (if ev_quit f then g\<lparr>running := False\<rparr> else g)"

text \<open>Player input (lines 167--173).\<close>

definition player_dy :: "frame \<Rightarrow> int" where
  "player_dy f =
     (let dy = 0;
          dy = (if key_up f then - PLAYER_SPEED else dy);
          dy = (if key_down f then PLAYER_SPEED else dy)
      in dy)"

definition player_input :: "frame \<Rightarrow> game \<Rightarrow> game" where
  "player_input f g = g\<lparr>player_paddle := Paddle_update (player_dy f) (player_paddle g)\<rparr>"

text \<open>Computer paddle AI (lines 177--180).\<close>

definition computer_ai :: "game \<Rightarrow> game" where
  "computer_ai g =
     (if rect_centery (rect (ball g)) < rect_centery (rect (comp_paddle g))
      then g\<lparr>comp_paddle := Paddle_update (- COMP_SPEED) (comp_paddle g)\<rparr>
      else if rect_centery (rect (ball g)) > rect_centery (rect (comp_paddle g))
      then g\<lparr>comp_paddle := Paddle_update COMP_SPEED (comp_paddle g)\<rparr>
      else g)"

text \<open>Update of the ball position (line 183).\<close>

definition update_ball :: "game \<Rightarrow> game" where
  "update_ball g = g\<lparr>ball := Ball_update (ball g)\<rparr>"

text \<open>Collisions with the paddles (lines 187--194): the player's paddle first.\<close>

definition hit_player :: "frame \<Rightarrow> game \<Rightarrow> game" where
  "hit_player f g =
     (if colliderect (rect (ball g)) (rect (player_paddle g)) \<and> speed_x (ball g) < 0
      then g\<lparr>ball := (ball g)\<lparr>speed_x := speed_x (ball g) * (- 1),
                              speed_y := speed_y (ball g) + random_choice (pick_player_hit f)\<rparr>\<rparr>
      else g)"

definition hit_comp :: "frame \<Rightarrow> game \<Rightarrow> game" where
  "hit_comp f g =
     (if colliderect (rect (ball g)) (rect (comp_paddle g)) \<and> speed_x (ball g) > 0
      then g\<lparr>ball := (ball g)\<lparr>speed_x := speed_x (ball g) * (- 1),
                              speed_y := speed_y (ball g) + random_choice (pick_comp_hit f)\<rparr>\<rparr>
      else g)"

definition paddle_collisions :: "frame \<Rightarrow> game \<Rightarrow> game" where
  "paddle_collisions f g = hit_comp f (hit_player f g)"

text \<open>Ball off-screen (lines 198--207): the left exit is checked first.\<close>

definition exit_left :: "frame \<Rightarrow> game \<Rightarrow> game" where
  "exit_left f g =
     (if rect_right (rect (ball g)) < 0
      then g\<lparr>comp_score := comp_score g + 1,
             player_lives := player_lives g - 1,
             ball := Ball_reset (picks_left_exit f) (ball g)\<rparr>
      else g)"

definition exit_right :: "frame \<Rightarrow> game \<Rightarrow> game" where
  "exit_right f g =
     (if rect_left (rect (ball g)) > SCREEN_WIDTH
      then g\<lparr>player_score := player_score g + 1,
             comp_lives := comp_lives g - 1,
             ball := Ball_reset (picks_right_exit f) (ball g)\<rparr>
      else g)"

definition off_screen :: "frame \<Rightarrow> game \<Rightarrow> game" where
  "off_screen f g = exit_right f (exit_left f g)"

text \<open>Game over (lines 210--211).\<close>

definition game_over :: "game \<Rightarrow> game" where
  "game_over g =
     (if player_lives g \<le> 0 \<or> comp_lives g \<le> 0 then g\<lparr>running := False\<rparr> else g)"

text \<open>
  The part of an iteration that moves the paddles and the ball, up to and including the
  paddle collisions, and the whole iteration. An iteration that has begun runs to its end
  even when a QUIT event cleared \<open>running\<close> at its start.
\<close>

definition simulate :: "frame \<Rightarrow> game \<Rightarrow> game" where
  "simulate f g =
     paddle_collisions f (update_ball (computer_ai (player_input f (process_events f g))))"

definition tick :: "frame \<Rightarrow> game \<Rightarrow> game" where
  "tick f g = game_over (off_screen f (simulate f g))"

text \<open>
  \<open>while running\<close>: the loop runs one iteration per frame of input for as long as
  \<open>running\<close> holds; the list of frames is the input the loop has received so far.
\<close>

fun main_loop :: "frame list \<Rightarrow> game \<Rightarrow> game" where
  "main_loop [] g = g"
| "main_loop (f # fs) g = (if running g then main_loop fs (tick f g) else g)"

section \<open>Sample inputs\<close>

text \<open>
  A game started without sprite files whose first two picks send the ball up and to the
  left, and a frame with no key held and no QUIT event. The examples below are variations
  of these two.
\<close>

definition kickoff :: game where
  "kickoff = init_game no_assets (Neg, Neg)"

definition idle_frame :: frame where
  "idle_frame =
     \<lparr>ev_quit = False, key_up = False, key_down = False,
      pick_player_hit = Pos, pick_comp_hit = Pos,
      picks_left_exit = (Pos, Neg), picks_right_exit = (Neg, Pos)\<rparr>"

definition ball_at :: "int \<Rightarrow> int \<Rightarrow> game \<Rightarrow> game" where
  "ball_at x y g = g\<lparr>ball := (ball g)\<lparr>rect := (rect (ball g))\<lparr>rect_x := x, rect_y := y\<rparr>\<rparr>\<rparr>"

text \<open>
  A state one lost ball away from the end of the game, and a ball sprite wide enough to
  overlap both paddles at once.
\<close>

definition last_life :: game where
  "last_life = (ball_at (- 15) 290 kickoff)\<lparr>player_lives := 1\<rparr>"

definition wide_ball :: assets where
  "wide_ball = \<lparr>player_png = None, computer_png = None, ball_png = Some (800, 20)\<rparr>"

text \<open>
  A frame whose left-exit picks serve the ball up and to the left again, and a ball sprite
  taller than the field.
\<close>

definition left_serve :: frame where
  "left_serve = idle_frame\<lparr>picks_left_exit := (Neg, Neg)\<rparr>"

definition tall_ball :: assets where
  "tall_ball = \<lparr>player_png = None, computer_png = None, ball_png = Some (20, 700)\<rparr>"

text \<open>A sprite for the player's paddle that is taller than the field.\<close>

definition tall_paddle :: assets where
  "tall_paddle = \<lparr>player_png = Some (20, 700), computer_png = None, ball_png = None\<rparr>"

section \<open>Unfolding rules\<close>

lemmas settings =
  SCREEN_WIDTH_def SCREEN_HEIGHT_def PADDLE_WIDTH_def PADDLE_HEIGHT_def
  BALL_SIZE_def PLAYER_SPEED_def COMP_SPEED_def STARTING_LIVES_def

lemmas rect_defs =
  rect_top_def rect_bottom_def rect_left_def rect_right_def rect_centerx_def
  rect_centery_def rect_center_def set_top_def set_bottom_def set_center_def

lemmas sample_defs =
  kickoff_def idle_frame_def ball_at_def init_game_def no_assets_def Paddle_init_def
  Ball_init_def Ball_reset_def load_sprite_def get_rect_def

section \<open>What each part of an iteration leaves unchanged\<close>

lemma process_events_fields [simp]:
  "player_paddle (process_events f g) = player_paddle g"
  "comp_paddle (process_events f g) = comp_paddle g"
  "ball (process_events f g) = ball g"
  "player_score (process_events f g) = player_score g"
  "player_lives (process_events f g) = player_lives g"
  "comp_score (process_events f g) = comp_score g"
  "comp_lives (process_events f g) = comp_lives g"
  by (simp_all add: process_events_def)

lemma player_input_fields [simp]:
  "player_paddle (player_input f g) = Paddle_update (player_dy f) (player_paddle g)"
  "comp_paddle (player_input f g) = comp_paddle g"
  "ball (player_input f g) = ball g"
  "player_score (player_input f g) = player_score g"
  "player_lives (player_input f g) = player_lives g"
  "comp_score (player_input f g) = comp_score g"
  "comp_lives (player_input f g) = comp_lives g"
  "running (player_input f g) = running g"
  by (simp_all add: player_input_def)

lemma computer_ai_fields [simp]:
  "player_paddle (computer_ai g) = player_paddle g"
  "ball (computer_ai g) = ball g"
  "player_score (computer_ai g) = player_score g"
  "player_lives (computer_ai g) = player_lives g"
  "comp_score (computer_ai g) = comp_score g"
  "comp_lives (computer_ai g) = comp_lives g"
  "running (computer_ai g) = running g"
  by (simp_all add: computer_ai_def)

lemma update_ball_fields [simp]:
  "player_paddle (update_ball g) = player_paddle g"
  "comp_paddle (update_ball g) = comp_paddle g"
  "ball (update_ball g) = Ball_update (ball g)"
  "player_score (update_ball g) = player_score g"
  "player_lives (update_ball g) = player_lives g"
  "comp_score (update_ball g) = comp_score g"
  "comp_lives (update_ball g) = comp_lives g"
  "running (update_ball g) = running g"
  by (simp_all add: update_ball_def)

lemma hit_player_fields [simp]:
  "player_paddle (hit_player f g) = player_paddle g"
  "comp_paddle (hit_player f g) = comp_paddle g"
  "rect (ball (hit_player f g)) = rect (ball g)"
  "player_score (hit_player f g) = player_score g"
  "player_lives (hit_player f g) = player_lives g"
  "comp_score (hit_player f g) = comp_score g"
  "comp_lives (hit_player f g) = comp_lives g"
  "running (hit_player f g) = running g"
  by (simp_all add: hit_player_def)

lemma hit_comp_fields [simp]:
  "player_paddle (hit_comp f g) = player_paddle g"
  "comp_paddle (hit_comp f g) = comp_paddle g"
  "rect (ball (hit_comp f g)) = rect (ball g)"
  "player_score (hit_comp f g) = player_score g"
  "player_lives (hit_comp f g) = player_lives g"
  "comp_score (hit_comp f g) = comp_score g"
  "comp_lives (hit_comp f g) = comp_lives g"
  "running (hit_comp f g) = running g"
  by (simp_all add: hit_comp_def)

lemma exit_left_fields [simp]:
  "player_paddle (exit_left f g) = player_paddle g"
  "comp_paddle (exit_left f g) = comp_paddle g"
  "player_score (exit_left f g) = player_score g"
  "comp_lives (exit_left f g) = comp_lives g"
  "running (exit_left f g) = running g"
  by (simp_all add: exit_left_def)

lemma exit_right_fields [simp]:
  "player_paddle (exit_right f g) = player_paddle g"
  "comp_paddle (exit_right f g) = comp_paddle g"
  "comp_score (exit_right f g) = comp_score g"
  "player_lives (exit_right f g) = player_lives g"
  "running (exit_right f g) = running g"
  by (simp_all add: exit_right_def)

lemma game_over_fields [simp]:
  "player_paddle (game_over g) = player_paddle g"
  "comp_paddle (game_over g) = comp_paddle g"
  "ball (game_over g) = ball g"
  "player_score (game_over g) = player_score g"
  "player_lives (game_over g) = player_lives g"
  "comp_score (game_over g) = comp_score g"
  "comp_lives (game_over g) = comp_lives g"
  by (simp_all add: game_over_def)

lemma simulate_fields [simp]:
  "player_paddle (simulate f g) = Paddle_update (player_dy f) (player_paddle g)"
  "comp_paddle (simulate f g) = comp_paddle (computer_ai g)"
  "rect (ball (simulate f g)) = rect (Ball_update (ball g))"
  "player_score (simulate f g) = player_score g"
  "player_lives (simulate f g) = player_lives g"
  "comp_score (simulate f g) = comp_score g"
  "comp_lives (simulate f g) = comp_lives g"
  "running (simulate f g) = (running g \<and> \<not> ev_quit f)"
  by (simp_all add: simulate_def paddle_collisions_def)
     (simp_all add: computer_ai_def process_events_def)

lemma tick_player_paddle:
  "player_paddle (tick f g) = Paddle_update (player_dy f) (player_paddle g)"
  by (simp add: tick_def off_screen_def)

lemma tick_comp_paddle:
  "comp_paddle (tick f g) = comp_paddle (computer_ai g)"
  by (simp add: tick_def off_screen_def)

section \<open>Paddles\<close>




lemma Paddle_update_bounds:
  "int (rect_h (rect p)) \<le> SCREEN_HEIGHT \<Longrightarrow>
   0 \<le> rect_top (rect (Paddle_update dy p)) \<and>
   rect_bottom (rect (Paddle_update dy p)) \<le> SCREEN_HEIGHT"
  by (simp add: Paddle_update_def Let_def rect_defs)

lemma Paddle_update_in_field:
  "0 \<le> rect_top (rect p) \<and> rect_bottom (rect p) \<le> SCREEN_HEIGHT \<Longrightarrow>
   0 \<le> rect_top (rect (Paddle_update dy p)) \<and>
   rect_bottom (rect (Paddle_update dy p)) \<le> SCREEN_HEIGHT"
  using Paddle_update_bounds [of p dy] by (simp add: rect_defs)


lemma c_int_wrap_id: "c_int v \<Longrightarrow> c_int_wrap v = v"
  by (simp add: c_int_def c_int_wrap_def INT_MIN_def INT_MAX_def)

lemma Paddle_update_c_fits:
  assumes h: "int (rect_h (rect p)) \<le> SCREEN_HEIGHT"
    and lo: "INT_MIN \<le> rect_y (rect p) + dy"
    and hi: "rect_y (rect p) + dy + int (rect_h (rect p)) \<le> INT_MAX"
  shows "Paddle_update_c dy p = Inr (Paddle_update dy p)"
proof -
  from lo hi have y: "c_int (rect_y (rect p) + dy)"
    by (simp add: c_int_def)
  have b: "c_int_wrap (rect_bottom
      (if rect_top ((rect p)\<lparr>rect_y := rect_y (rect p) + dy\<rparr>) < 0
       then set_top 0 ((rect p)\<lparr>rect_y := rect_y (rect p) + dy\<rparr>)
       else (rect p)\<lparr>rect_y := rect_y (rect p) + dy\<rparr>))
    = rect_bottom
      (if rect_top ((rect p)\<lparr>rect_y := rect_y (rect p) + dy\<rparr>) < 0
       then set_top 0 ((rect p)\<lparr>rect_y := rect_y (rect p) + dy\<rparr>)
       else (rect p)\<lparr>rect_y := rect_y (rect p) + dy\<rparr>)"
    using h lo hi
    by (intro c_int_wrap_id) (simp add: c_int_def rect_defs INT_MIN_def INT_MAX_def settings)
  show ?thesis
    unfolding Paddle_update_c_def Paddle_update_def Let_def b using y by simp
qed

lemma Paddle_update_c_in_field:
  assumes "0 \<le> rect_top (rect p) \<and> rect_bottom (rect p) \<le> SCREEN_HEIGHT"
    and "\<bar>dy\<bar> \<le> 7"
  shows "Paddle_update_c dy p = Inr (Paddle_update dy p)"
proof (rule Paddle_update_c_fits)
  show "int (rect_h (rect p)) \<le> SCREEN_HEIGHT"
    using assms(1) by (simp add: rect_defs)
  show "INT_MIN \<le> rect_y (rect p) + dy"
    using assms unfolding rect_defs INT_MIN_def by arith
  show "rect_y (rect p) + dy + int (rect_h (rect p)) \<le> INT_MAX"
    using assms unfolding rect_defs INT_MAX_def SCREEN_HEIGHT_def by arith
qed

lemma abs_player_dy: "\<bar>player_dy f\<bar> \<le> 7"
  by (simp add: player_dy_def Let_def settings)

lemma tick_in_field:
  assumes "0 \<le> rect_top (rect (player_paddle g)) \<and>
           rect_bottom (rect (player_paddle g)) \<le> SCREEN_HEIGHT"
    and "0 \<le> rect_top (rect (comp_paddle g)) \<and>
         rect_bottom (rect (comp_paddle g)) \<le> SCREEN_HEIGHT"
  shows "(0 \<le> rect_top (rect (player_paddle (tick f g))) \<and>
          rect_bottom (rect (player_paddle (tick f g))) \<le> SCREEN_HEIGHT) \<and>
         (0 \<le> rect_top (rect (comp_paddle (tick f g))) \<and>
          rect_bottom (rect (comp_paddle (tick f g))) \<le> SCREEN_HEIGHT)"
proof
  show "0 \<le> rect_top (rect (player_paddle (tick f g))) \<and>
        rect_bottom (rect (player_paddle (tick f g))) \<le> SCREEN_HEIGHT"
    using Paddle_update_in_field [OF assms(1)] by (simp add: tick_player_paddle)
  show "0 \<le> rect_top (rect (comp_paddle (tick f g))) \<and>
        rect_bottom (rect (comp_paddle (tick f g))) \<le> SCREEN_HEIGHT"
    using Paddle_update_in_field [OF assms(2)] assms(2)
    by (simp add: tick_comp_paddle computer_ai_def)
qed

lemma main_loop_in_field:
  "0 \<le> rect_top (rect (player_paddle g)) \<and>
   rect_bottom (rect (player_paddle g)) \<le> SCREEN_HEIGHT \<Longrightarrow>
   0 \<le> rect_top (rect (comp_paddle g)) \<and>
   rect_bottom (rect (comp_paddle g)) \<le> SCREEN_HEIGHT \<Longrightarrow>
   (0 \<le> rect_top (rect (player_paddle (main_loop fs g))) \<and>
    rect_bottom (rect (player_paddle (main_loop fs g))) \<le> SCREEN_HEIGHT) \<and>
   (0 \<le> rect_top (rect (comp_paddle (main_loop fs g))) \<and>
    rect_bottom (rect (comp_paddle (main_loop fs g))) \<le> SCREEN_HEIGHT)"
proof (induction fs arbitrary: g)
  case Nil
  then show ?case by simp
next
  case (Cons f fs)
  show ?case
  proof (cases "running g")
    case True
    from tick_in_field [OF Cons.prems, of f] Cons.IH [of "tick f g"] True
    show ?thesis by simp
  next
    case False
    with Cons.prems show ?thesis by simp
  qed
qed

lemma init_in_field:
  "(0 \<le> rect_top (rect (player_paddle (init_game no_assets picks))) \<and>
    rect_bottom (rect (player_paddle (init_game no_assets picks))) \<le> SCREEN_HEIGHT) \<and>
   (0 \<le> rect_top (rect (comp_paddle (init_game no_assets picks))) \<and>
    rect_bottom (rect (comp_paddle (init_game no_assets picks))) \<le> SCREEN_HEIGHT)"
  by (simp add: init_game_def Paddle_init_def no_assets_def load_sprite_def
      get_rect_def rect_defs settings)

lemma default_game_in_field:
  "(0 \<le> rect_top (rect (player_paddle (main_loop fs (init_game no_assets picks)))) \<and>
    rect_bottom (rect (player_paddle (main_loop fs (init_game no_assets picks))))
      \<le> SCREEN_HEIGHT) \<and>
   (0 \<le> rect_top (rect (comp_paddle (main_loop fs (init_game no_assets picks)))) \<and>
    rect_bottom (rect (comp_paddle (main_loop fs (init_game no_assets picks))))
      \<le> SCREEN_HEIGHT)"
  using init_in_field [of picks] by (intro main_loop_in_field) simp_all

text \<open>
  Two paddles that \<open>Paddle.update\<close> leaves outside the field. A player's paddle made
  from a sprite 700 high is put with its bottom on the bottom edge, so its top is at -100,
  by the method itself and in the first tick of the game. The default paddle moved by
  2147483298 has its top stored at 2147483548, because the sum read for its bottom wraps to
  a negative number and the clamp does not fire; moved by 2147483648 the assignment fails
  and the update does not complete.
\<close>

theorem tall_or_far_paddle_leaves_field:
  "rect_h (rect (player_paddle (init_game tall_paddle (Neg, Neg)))) = 700 \<and>
   Paddle_update_c 0 (player_paddle (init_game tall_paddle (Neg, Neg)))
     = Inr (Paddle_update 0 (player_paddle (init_game tall_paddle (Neg, Neg)))) \<and>
   rect_top (rect (Paddle_update 0 (player_paddle (init_game tall_paddle (Neg, Neg))))) = - 100 \<and>
   rect_top (rect (player_paddle (tick idle_frame (init_game tall_paddle (Neg, Neg))))) = - 100 \<and>
   Paddle_update_c 2147483298 (player_paddle kickoff)
     = Inr ((player_paddle kickoff)
         \<lparr>rect := (rect (player_paddle kickoff))\<lparr>rect_y := 2147483548\<rparr>\<rparr>) \<and>
   SCREEN_HEIGHT < 2147483548 \<and>
   Paddle_update_c 2147483648 (player_paddle kickoff) = Inl TypeError"
  by (simp add: tick_player_paddle player_dy_def Paddle_update_c_def Paddle_update_def Let_def
      c_int_def c_int_wrap_def INT_MIN_def INT_MAX_def tall_paddle_def sample_defs rect_defs
      settings)

text \<open>
  C5, as amended. For a paddle no taller than the field and a displacement for which the
  moved top and the moved bottom fit the ints of the rectangle, \<open>Paddle.update\<close>
  completes and leaves the paddle within the field: top at least 0, bottom at most the
  field height. Every tick keeps a paddle that is within the field within the field, and
  the displacements it passes to such a paddle always fit. So in a game whose paddles start
  within the field, and in particular in a game started without sprite files, both paddles
  are within the field in every state the main loop reaches.
\<close>

theorem paddle_stays_in_field:
  "(int (rect_h (rect p)) \<le> SCREEN_HEIGHT \<and> INT_MIN \<le> rect_y (rect p) + dy \<and>
    rect_y (rect p) + dy + int (rect_h (rect p)) \<le> INT_MAX \<longrightarrow>
      Paddle_update_c dy p = Inr (Paddle_update dy p) \<and>
      0 \<le> rect_top (rect (Paddle_update dy p)) \<and>
      rect_bottom (rect (Paddle_update dy p)) \<le> SCREEN_HEIGHT) \<and>
   (0 \<le> rect_top (rect (player_paddle g)) \<and>
    rect_bottom (rect (player_paddle g)) \<le> SCREEN_HEIGHT \<longrightarrow>
      Paddle_update_c (player_dy f) (player_paddle g) = Inr (player_paddle (tick f g)) \<and>
      0 \<le> rect_top (rect (player_paddle (tick f g))) \<and>
      rect_bottom (rect (player_paddle (tick f g))) \<le> SCREEN_HEIGHT) \<and>
   (0 \<le> rect_top (rect (comp_paddle g)) \<and>
    rect_bottom (rect (comp_paddle g)) \<le> SCREEN_HEIGHT \<longrightarrow>
      Paddle_update_c (- COMP_SPEED) (comp_paddle g)
        = Inr (Paddle_update (- COMP_SPEED) (comp_paddle g)) \<and>
      Paddle_update_c COMP_SPEED (comp_paddle g)
        = Inr (Paddle_update COMP_SPEED (comp_paddle g)) \<and>
      0 \<le> rect_top (rect (comp_paddle (tick f g))) \<and>
      rect_bottom (rect (comp_paddle (tick f g))) \<le> SCREEN_HEIGHT) \<and>
   (rect_bottom (rect (player_paddle (init_game files picks))) \<le> SCREEN_HEIGHT \<and>
    rect_bottom (rect (comp_paddle (init_game files picks))) \<le> SCREEN_HEIGHT \<longrightarrow>
      0 \<le> rect_top (rect (player_paddle (main_loop fs (init_game files picks)))) \<and>
      rect_bottom (rect (player_paddle (main_loop fs (init_game files picks))))
        \<le> SCREEN_HEIGHT \<and>
      0 \<le> rect_top (rect (comp_paddle (main_loop fs (init_game files picks)))) \<and>
      rect_bottom (rect (comp_paddle (main_loop fs (init_game files picks))))
        \<le> SCREEN_HEIGHT) \<and>
   (0 \<le> rect_top (rect (player_paddle (main_loop fs (init_game no_assets picks)))) \<and>
    rect_bottom (rect (player_paddle (main_loop fs (init_game no_assets picks))))
      \<le> SCREEN_HEIGHT) \<and>
   (0 \<le> rect_top (rect (comp_paddle (main_loop fs (init_game no_assets picks)))) \<and>
    rect_bottom (rect (comp_paddle (main_loop fs (init_game no_assets picks))))
      \<le> SCREEN_HEIGHT)"
proof -
  have a: "int (rect_h (rect p)) \<le> SCREEN_HEIGHT \<and> INT_MIN \<le> rect_y (rect p) + dy \<and>
    rect_y (rect p) + dy + int (rect_h (rect p)) \<le> INT_MAX \<longrightarrow>
      Paddle_update_c dy p = Inr (Paddle_update dy p) \<and>
      0 \<le> rect_top (rect (Paddle_update dy p)) \<and>
      rect_bottom (rect (Paddle_update dy p)) \<le> SCREEN_HEIGHT"
    using Paddle_update_c_fits [of p dy] Paddle_update_bounds [of p dy] by blast
  have b: "0 \<le> rect_top (rect (player_paddle g)) \<and>
    rect_bottom (rect (player_paddle g)) \<le> SCREEN_HEIGHT \<longrightarrow>
      Paddle_update_c (player_dy f) (player_paddle g) = Inr (player_paddle (tick f g)) \<and>
      0 \<le> rect_top (rect (player_paddle (tick f g))) \<and>
      rect_bottom (rect (player_paddle (tick f g))) \<le> SCREEN_HEIGHT"
    using Paddle_update_c_in_field [of "player_paddle g" "player_dy f"] abs_player_dy [of f]
      Paddle_update_in_field [of "player_paddle g" "player_dy f"]
    by (simp add: tick_player_paddle)
  have c: "0 \<le> rect_top (rect (comp_paddle g)) \<and>
    rect_bottom (rect (comp_paddle g)) \<le> SCREEN_HEIGHT \<longrightarrow>
      Paddle_update_c (- COMP_SPEED) (comp_paddle g)
        = Inr (Paddle_update (- COMP_SPEED) (comp_paddle g)) \<and>
      Paddle_update_c COMP_SPEED (comp_paddle g)
        = Inr (Paddle_update COMP_SPEED (comp_paddle g)) \<and>
      0 \<le> rect_top (rect (comp_paddle (tick f g))) \<and>
      rect_bottom (rect (comp_paddle (tick f g))) \<le> SCREEN_HEIGHT"
    using Paddle_update_c_in_field [of "comp_paddle g" "- COMP_SPEED"]
      Paddle_update_c_in_field [of "comp_paddle g" COMP_SPEED]
      Paddle_update_in_field [of "comp_paddle g" "- COMP_SPEED"]
      Paddle_update_in_field [of "comp_paddle g" COMP_SPEED]
    by (simp add: tick_comp_paddle computer_ai_def COMP_SPEED_def)
  have top0: "0 \<le> rect_top (rect (player_paddle (init_game files picks))) \<and>
      0 \<le> rect_top (rect (comp_paddle (init_game files picks)))"
    by (simp add: init_game_def Paddle_init_def rect_defs settings)
  have d: "rect_bottom (rect (player_paddle (init_game files picks))) \<le> SCREEN_HEIGHT \<and>
    rect_bottom (rect (comp_paddle (init_game files picks))) \<le> SCREEN_HEIGHT \<longrightarrow>
      0 \<le> rect_top (rect (player_paddle (main_loop fs (init_game files picks)))) \<and>
      rect_bottom (rect (player_paddle (main_loop fs (init_game files picks))))
        \<le> SCREEN_HEIGHT \<and>
      0 \<le> rect_top (rect (comp_paddle (main_loop fs (init_game files picks)))) \<and>
      rect_bottom (rect (comp_paddle (main_loop fs (init_game files picks))))
        \<le> SCREEN_HEIGHT"
    using top0 main_loop_in_field [of "init_game files picks" fs] by blast
  from a b c d default_game_in_field [of fs picks] show ?thesis by blast
qed

theorem paddle_stays_in_field_witness:
  "int (rect_h (rect (player_paddle kickoff))) \<le> SCREEN_HEIGHT \<and>
   INT_MIN \<le> rect_y (rect (player_paddle kickoff)) + (- 1000) \<and>
   rect_y (rect (player_paddle kickoff)) + 1000 + int (rect_h (rect (player_paddle kickoff)))
     \<le> INT_MAX \<and>
   Paddle_update_c (- 1000) (player_paddle kickoff)
     = Inr (Paddle_update (- 1000) (player_paddle kickoff)) \<and>
   Paddle_update_c 1000 (player_paddle kickoff)
     = Inr (Paddle_update 1000 (player_paddle kickoff)) \<and>
   rect_top (rect (Paddle_update (- 1000) (player_paddle kickoff))) = 0 \<and>
   rect_bottom (rect (Paddle_update 1000 (player_paddle kickoff))) = 600 \<and>
   0 \<le> rect_top (rect (Paddle_update (- 1000) (player_paddle kickoff))) \<and>
   rect_bottom (rect (Paddle_update 1000 (player_paddle kickoff))) \<le> SCREEN_HEIGHT \<and>
   0 \<le> rect_top (rect (player_paddle kickoff)) \<and>
   rect_bottom (rect (player_paddle kickoff)) \<le> SCREEN_HEIGHT \<and>
   0 \<le> rect_top (rect (comp_paddle kickoff)) \<and>
   rect_bottom (rect (comp_paddle kickoff)) \<le> SCREEN_HEIGHT \<and>
   0 \<le> rect_top (rect (player_paddle (tick idle_frame kickoff))) \<and>
   rect_bottom (rect (player_paddle (tick idle_frame kickoff))) \<le> SCREEN_HEIGHT \<and>
   0 \<le> rect_top (rect (comp_paddle (tick idle_frame kickoff))) \<and>
   rect_bottom (rect (comp_paddle (tick idle_frame kickoff))) \<le> SCREEN_HEIGHT \<and>
   rect_bottom (rect (player_paddle (init_game no_assets (Neg, Neg)))) \<le> SCREEN_HEIGHT \<and>
   rect_bottom (rect (comp_paddle (init_game no_assets (Neg, Neg)))) \<le> SCREEN_HEIGHT \<and>
   rect_bottom (rect (player_paddle (main_loop [idle_frame] (init_game no_assets (Neg, Neg)))))
     \<le> SCREEN_HEIGHT"
proof -
  have h: "int (rect_h (rect (player_paddle kickoff))) \<le> SCREEN_HEIGHT"
    by (simp add: sample_defs settings)
  have lo: "INT_MIN \<le> rect_y (rect (player_paddle kickoff)) + (- 1000) \<and>
      rect_y (rect (player_paddle kickoff)) + (- 1000) + int (rect_h (rect (player_paddle kickoff)))
        \<le> INT_MAX"
    by (simp add: sample_defs settings INT_MIN_def INT_MAX_def)
  have hi: "INT_MIN \<le> rect_y (rect (player_paddle kickoff)) + 1000 \<and>
      rect_y (rect (player_paddle kickoff)) + 1000 + int (rect_h (rect (player_paddle kickoff)))
        \<le> INT_MAX"
    by (simp add: sample_defs settings INT_MIN_def INT_MAX_def)
  have a: "rect_top (rect (Paddle_update (- 1000) (player_paddle kickoff))) = 0"
    by (simp add: sample_defs settings Paddle_update_def Let_def rect_defs)
  have b: "rect_bottom (rect (Paddle_update 1000 (player_paddle kickoff))) = 600"
    by (simp add: sample_defs settings Paddle_update_def Let_def rect_defs)
  have f: "0 \<le> rect_top (rect (player_paddle kickoff)) \<and>
      rect_bottom (rect (player_paddle kickoff)) \<le> SCREEN_HEIGHT \<and>
      0 \<le> rect_top (rect (comp_paddle kickoff)) \<and>
      rect_bottom (rect (comp_paddle kickoff)) \<le> SCREEN_HEIGHT"
    by (simp add: sample_defs settings rect_defs)
  have i: "rect_bottom (rect (player_paddle (init_game no_assets (Neg, Neg)))) \<le> SCREEN_HEIGHT \<and>
      rect_bottom (rect (comp_paddle (init_game no_assets (Neg, Neg)))) \<le> SCREEN_HEIGHT"
    by (simp add: sample_defs settings rect_defs)
  from h lo hi a b f i
    paddle_stays_in_field [where p = "player_paddle kickoff" and dy = "- 1000"
      and g = kickoff and f = idle_frame and files = no_assets and picks = "(Neg, Neg)"
      and fs = "[idle_frame]"]
    paddle_stays_in_field [where p = "player_paddle kickoff" and dy = 1000
      and g = kickoff and f = idle_frame and files = no_assets and picks = "(Neg, Neg)"
      and fs = "[idle_frame]"]
  show ?thesis by blast
qed

section \<open>Player input and computer control\<close>














section \<open>The ball\<close>

lemma Ball_reset_center:
  "rect_center (rect (Ball_reset picks b)) = (SCREEN_WIDTH div 2, SCREEN_HEIGHT div 2)"
  by (simp add: Ball_reset_def Let_def rect_defs)

lemma Ball_reset_speed:
  "speed_x (Ball_reset picks b) = 7 * random_choice (fst picks) \<and>
   speed_y (Ball_reset picks b) = 7 * random_choice (snd picks)"
  by (simp add: Ball_reset_def Let_def)

lemma abs_random_choice: "\<bar>random_choice c\<bar> = 1"
  by (cases c) simp_all

lemma Ball_reset_abs:
  "\<bar>speed_x (Ball_reset picks b)\<bar> = 7 \<and> \<bar>speed_y (Ball_reset picks b)\<bar> = 7"
  by (simp add: Ball_reset_speed abs_mult abs_random_choice)

lemma Ball_reset_again: "Ball_reset picks (Ball_reset picks' b) = Ball_reset picks b"
  by (simp add: Ball_reset_def Let_def rect_defs)

lemma Ball_reset_size:
  "rect_w (rect (Ball_reset picks b)) = rect_w (rect b) \<and>
   rect_h (rect (Ball_reset picks b)) = rect_h (rect b)"
  by (simp add: Ball_reset_def Let_def rect_defs)

text \<open>
  C6. After \<open>Ball.reset\<close> the centre of the ball is the centre of the field,
  (400, 300), and both speeds have magnitude 7. The horizontal sign is the first pick and
  the vertical sign the second, so that each of the four sign combinations occurs for some
  pair of picks. The creation of the ball is such a reset: the ball of a new game is the
  reset, with the picks of the creation, of a ball with the rectangle of the sprite, and
  resetting any created ball gives the ball that a creation with the same picks gives; so
  the created ball has its centre at (400, 300), speeds of magnitude 7, and the signs of
  its two picks. (That the picks are independent and uniform is a property of the random
  source, outside this model.)
\<close>

theorem ball_reset_center_speed:
  "rect_center (rect (Ball_reset picks b)) = (SCREEN_WIDTH div 2, SCREEN_HEIGHT div 2) \<and>
   (SCREEN_WIDTH div 2, SCREEN_HEIGHT div 2) = (400, 300) \<and>
   \<bar>speed_x (Ball_reset picks b)\<bar> = 7 \<and> \<bar>speed_y (Ball_reset picks b)\<bar> = 7 \<and>
   speed_x (Ball_reset (px, py) b) = (case px of Neg \<Rightarrow> - 7 | Pos \<Rightarrow> 7) \<and>
   speed_y (Ball_reset (px, py) b) = (case py of Neg \<Rightarrow> - 7 | Pos \<Rightarrow> 7) \<and>
   ball (init_game files picks) = Ball_init files picks \<and>
   rect_center (rect (Ball_init files picks)) = (SCREEN_WIDTH div 2, SCREEN_HEIGHT div 2) \<and>
   \<bar>speed_x (Ball_init files picks)\<bar> = 7 \<and> \<bar>speed_y (Ball_init files picks)\<bar> = 7 \<and>
   speed_x (Ball_init files (px, py)) = (case px of Neg \<Rightarrow> - 7 | Pos \<Rightarrow> 7) \<and>
   speed_y (Ball_init files (px, py)) = (case py of Neg \<Rightarrow> - 7 | Pos \<Rightarrow> 7) \<and>
   Ball_init files picks =
     Ball_reset picks
       \<lparr>rect = get_rect (load_sprite (ball_png files) (BALL_SIZE, BALL_SIZE)),
        speed_x = 0, speed_y = 0\<rparr> \<and>
   Ball_reset picks (Ball_init files picks') = Ball_init files picks \<and>
   (rect_w (rect (Ball_init files picks)), rect_h (rect (Ball_init files picks)))
     = load_sprite (ball_png files) (BALL_SIZE, BALL_SIZE) \<and>
   rect_w (rect (Ball_reset picks b)) = rect_w (rect b) \<and>
   rect_h (rect (Ball_reset picks b)) = rect_h (rect b)"
proof -
  have x: "speed_x (Ball_reset (px, py) b') = (case px of Neg \<Rightarrow> - 7 | Pos \<Rightarrow> 7)" for b'
    by (cases px) (simp_all add: Ball_reset_speed)
  have y: "speed_y (Ball_reset (px, py) b') = (case py of Neg \<Rightarrow> - 7 | Pos \<Rightarrow> 7)" for b'
    by (cases py) (simp_all add: Ball_reset_speed)
  have i: "ball (init_game files picks) = Ball_init files picks"
    by (simp add: init_game_def)
  have c: "(SCREEN_WIDTH div 2, SCREEN_HEIGHT div 2) = (400, 300)"
    by (simp add: settings)
  have again: "Ball_reset picks (Ball_init files picks') = Ball_init files picks"
    by (simp add: Ball_init_def Ball_reset_again)
  have size: "(rect_w (rect (Ball_init files picks)), rect_h (rect (Ball_init files picks)))
      = load_sprite (ball_png files) (BALL_SIZE, BALL_SIZE)"
    by (simp add: Ball_init_def Ball_reset_size get_rect_def)
  have ix: "speed_x (Ball_init files (px, py)) = (case px of Neg \<Rightarrow> - 7 | Pos \<Rightarrow> 7)"
    unfolding Ball_init_def by (rule x)
  have iy: "speed_y (Ball_init files (px, py)) = (case py of Neg \<Rightarrow> - 7 | Pos \<Rightarrow> 7)"
    unfolding Ball_init_def by (rule y)
  have d: "Ball_init files picks =
     Ball_reset picks
       \<lparr>rect = get_rect (load_sprite (ball_png files) (BALL_SIZE, BALL_SIZE)),
        speed_x = 0, speed_y = 0\<rparr>"
    by (simp add: Ball_init_def)
  have r: "rect_center (rect (Ball_init files picks)) = (SCREEN_WIDTH div 2, SCREEN_HEIGHT div 2) \<and>
      \<bar>speed_x (Ball_init files picks)\<bar> = 7 \<and> \<bar>speed_y (Ball_init files picks)\<bar> = 7"
    by (simp add: Ball_init_def Ball_reset_center Ball_reset_abs)
  from x [of b] y [of b] i c again size ix iy d r
    Ball_reset_center [of picks b] Ball_reset_abs [of picks b] Ball_reset_size [of picks b]
  show ?thesis by blast
qed

lemma Ball_update_rect:
  "rect (Ball_update b) =
     (rect b)\<lparr>rect_x := rect_x (rect b) + speed_x b, rect_y := rect_y (rect b) + speed_y b\<rparr>"
  by (simp add: Ball_update_def Let_def)

lemma Ball_update_speed_x: "speed_x (Ball_update b) = speed_x b"
  by (simp add: Ball_update_def Let_def)

lemma Ball_update_speed_y:
  "speed_y (Ball_update b) =
     (if rect_top (rect (Ball_update b)) \<le> 0 \<or> rect_bottom (rect (Ball_update b)) \<ge> SCREEN_HEIGHT
      then - speed_y b else speed_y b)"
  by (simp add: Ball_update_def Let_def)

text \<open>
  C7. \<open>Ball.update\<close> moves the ball by its velocity. If the moved ball has its top at
  or above the top of the field, or its bottom at or below the bottom of the field, the
  vertical speed is negated, once, also when both edges are reached; otherwise it is kept.
  The position stays where the move put it (no correction for overshoot), and the horizontal
  speed is untouched. In a tick the update is applied to the ball as it was when the tick
  began.
\<close>

theorem ball_update_wall_bounce:
  "(rect_top (rect (Ball_update b)) \<le> 0 \<or> rect_bottom (rect (Ball_update b)) \<ge> SCREEN_HEIGHT
      \<longrightarrow> speed_y (Ball_update b) = - speed_y b) \<and>
   (rect_top (rect (Ball_update b)) \<le> 0 \<and> rect_bottom (rect (Ball_update b)) \<ge> SCREEN_HEIGHT
      \<longrightarrow> speed_y (Ball_update b) = - speed_y b) \<and>
   (0 < rect_top (rect (Ball_update b)) \<and> rect_bottom (rect (Ball_update b)) < SCREEN_HEIGHT
      \<longrightarrow> speed_y (Ball_update b) = speed_y b) \<and>
   speed_x (Ball_update b) = speed_x b \<and>
   rect (Ball_update b) =
     (rect b)\<lparr>rect_x := rect_x (rect b) + speed_x b, rect_y := rect_y (rect b) + speed_y b\<rparr> \<and>
   ball (update_ball (computer_ai (player_input f (process_events f g)))) = Ball_update (ball g)"
  using Ball_update_speed_y [of b] Ball_update_rect [of b]
  by (simp add: Ball_update_speed_x)

theorem ball_update_wall_bounce_witness:
  "rect_top (rect (Ball_update (ball (ball_at 390 3 kickoff)))) \<le> 0 \<and>
   speed_y (ball (ball_at 390 3 kickoff)) = - 7 \<and>
   speed_y (Ball_update (ball (ball_at 390 3 kickoff))) = 7 \<and>
   rect_y (rect (Ball_update (ball (ball_at 390 3 kickoff)))) = - 4 \<and>
   rect_bottom (rect (Ball_update (ball (ball_at 390 575 (init_game no_assets (Neg, Pos))))))
     \<ge> SCREEN_HEIGHT \<and>
   speed_y (ball (ball_at 390 575 (init_game no_assets (Neg, Pos)))) = 7 \<and>
   speed_y (Ball_update (ball (ball_at 390 575 (init_game no_assets (Neg, Pos))))) = - 7 \<and>
   rect_y (rect (Ball_update (ball (ball_at 390 575 (init_game no_assets (Neg, Pos)))))) = 582 \<and>
   rect_top (rect (Ball_update (ball (init_game tall_ball (Neg, Neg))))) \<le> 0 \<and>
   rect_bottom (rect (Ball_update (ball (init_game tall_ball (Neg, Neg))))) \<ge> SCREEN_HEIGHT \<and>
   speed_y (ball (init_game tall_ball (Neg, Neg))) = - 7 \<and>
   speed_y (Ball_update (ball (init_game tall_ball (Neg, Neg)))) = 7 \<and>
   0 < rect_top (rect (Ball_update (ball kickoff))) \<and>
   rect_bottom (rect (Ball_update (ball kickoff))) < SCREEN_HEIGHT \<and>
   speed_y (ball kickoff) = - 7 \<and>
   speed_y (Ball_update (ball kickoff)) = - 7"
proof -
  have a: "rect_top (rect (Ball_update (ball (ball_at 390 3 kickoff)))) \<le> 0"
    by (simp add: Ball_update_rect sample_defs settings rect_defs)
  have a': "speed_y (ball (ball_at 390 3 kickoff)) = - 7 \<and>
      rect_y (rect (ball (ball_at 390 3 kickoff))) = 3"
    by (simp add: sample_defs)
  have b: "rect_bottom (rect (Ball_update (ball (ball_at 390 575 (init_game no_assets (Neg, Pos))))))
      \<ge> SCREEN_HEIGHT"
    by (simp add: Ball_update_rect sample_defs settings rect_defs)
  have b': "speed_y (ball (ball_at 390 575 (init_game no_assets (Neg, Pos)))) = 7 \<and>
      rect_y (rect (ball (ball_at 390 575 (init_game no_assets (Neg, Pos))))) = 575"
    by (simp add: sample_defs)
  have c: "rect_top (rect (Ball_update (ball (init_game tall_ball (Neg, Neg))))) \<le> 0 \<and>
      rect_bottom (rect (Ball_update (ball (init_game tall_ball (Neg, Neg))))) \<ge> SCREEN_HEIGHT"
    by (simp add: Ball_update_rect tall_ball_def sample_defs settings rect_defs)
  have c': "speed_y (ball (init_game tall_ball (Neg, Neg))) = - 7"
    by (simp add: sample_defs)
  have d: "0 < rect_top (rect (Ball_update (ball kickoff))) \<and>
      rect_bottom (rect (Ball_update (ball kickoff))) < SCREEN_HEIGHT"
    by (simp add: Ball_update_rect sample_defs settings rect_defs)
  have d': "speed_y (ball kickoff) = - 7"
    by (simp add: sample_defs)
  from a ball_update_wall_bounce [of "ball (ball_at 390 3 kickoff)"]
  have ta: "speed_y (Ball_update (ball (ball_at 390 3 kickoff)))
        = - speed_y (ball (ball_at 390 3 kickoff)) \<and>
      rect (Ball_update (ball (ball_at 390 3 kickoff)))
        = (rect (ball (ball_at 390 3 kickoff)))
            \<lparr>rect_x := rect_x (rect (ball (ball_at 390 3 kickoff)))
                 + speed_x (ball (ball_at 390 3 kickoff)),
             rect_y := rect_y (rect (ball (ball_at 390 3 kickoff)))
                 + speed_y (ball (ball_at 390 3 kickoff))\<rparr>"
    by blast
  from b ball_update_wall_bounce [of "ball (ball_at 390 575 (init_game no_assets (Neg, Pos)))"]
  have tb: "speed_y (Ball_update (ball (ball_at 390 575 (init_game no_assets (Neg, Pos)))))
        = - speed_y (ball (ball_at 390 575 (init_game no_assets (Neg, Pos)))) \<and>
      rect (Ball_update (ball (ball_at 390 575 (init_game no_assets (Neg, Pos)))))
        = (rect (ball (ball_at 390 575 (init_game no_assets (Neg, Pos)))))
            \<lparr>rect_x := rect_x (rect (ball (ball_at 390 575 (init_game no_assets (Neg, Pos)))))
                 + speed_x (ball (ball_at 390 575 (init_game no_assets (Neg, Pos)))),
             rect_y := rect_y (rect (ball (ball_at 390 575 (init_game no_assets (Neg, Pos)))))
                 + speed_y (ball (ball_at 390 575 (init_game no_assets (Neg, Pos))))\<rparr>"
    by blast
  from c ball_update_wall_bounce [of "ball (init_game tall_ball (Neg, Neg))"]
  have tc: "speed_y (Ball_update (ball (init_game tall_ball (Neg, Neg))))
      = - speed_y (ball (init_game tall_ball (Neg, Neg)))"
    by blast
  from d ball_update_wall_bounce [of "ball kickoff"]
  have td: "speed_y (Ball_update (ball kickoff)) = speed_y (ball kickoff)"
    by blast
  from a b c d show ?thesis
    by (simp add: ta tb tc td a' b' c' d')
qed

section \<open>Scoring and lives\<close>

lemma Ball_reset_left: "rect_left (rect (Ball_reset picks b)) \<le> SCREEN_WIDTH"
  by (simp add: Ball_reset_def Let_def rect_defs settings)

lemma exit_left_hit:
  "rect_right (rect (ball g)) < 0 \<Longrightarrow>
   exit_left f g = g\<lparr>comp_score := comp_score g + 1, player_lives := player_lives g - 1,
                      ball := Ball_reset (picks_left_exit f) (ball g)\<rparr>"
  by (simp add: exit_left_def)

lemma exit_left_miss: "\<not> rect_right (rect (ball g)) < 0 \<Longrightarrow> exit_left f g = g"
  by (simp add: exit_left_def)

lemma exit_right_hit:
  "rect_left (rect (ball g)) > SCREEN_WIDTH \<Longrightarrow>
   exit_right f g = g\<lparr>player_score := player_score g + 1, comp_lives := comp_lives g - 1,
                       ball := Ball_reset (picks_right_exit f) (ball g)\<rparr>"
  by (simp add: exit_right_def)

lemma exit_right_miss: "\<not> rect_left (rect (ball g)) > SCREEN_WIDTH \<Longrightarrow> exit_right f g = g"
  by (simp add: exit_right_def)

lemma exits_exclusive:
  "\<not> (rect_right r < 0 \<and> rect_left r > SCREEN_WIDTH)"
  by (simp add: rect_defs settings)

lemma no_right_exit_after_left_exit:
  "rect_right (rect (ball g)) < 0 \<Longrightarrow>
   \<not> rect_left (rect (ball (exit_left f g))) > SCREEN_WIDTH"
  using Ball_reset_left [of "picks_left_exit f" "ball g"] by (simp add: exit_left_hit)

lemma off_screen_left:
  "rect_right (rect (ball g)) < 0 \<Longrightarrow>
   off_screen f g = g\<lparr>comp_score := comp_score g + 1, player_lives := player_lives g - 1,
                       ball := Ball_reset (picks_left_exit f) (ball g)\<rparr>"
  using no_right_exit_after_left_exit [of g f]
  by (simp add: off_screen_def exit_right_miss) (simp add: exit_left_hit)

lemma off_screen_right:
  "rect_left (rect (ball g)) > SCREEN_WIDTH \<Longrightarrow>
   off_screen f g = g\<lparr>player_score := player_score g + 1, comp_lives := comp_lives g - 1,
                       ball := Ball_reset (picks_right_exit f) (ball g)\<rparr>"
  using exits_exclusive [of "rect (ball g)"]
  by (simp add: off_screen_def exit_left_miss exit_right_hit)

lemma off_screen_none:
  "\<not> rect_right (rect (ball g)) < 0 \<Longrightarrow> \<not> rect_left (rect (ball g)) > SCREEN_WIDTH \<Longrightarrow>
   off_screen f g = g"
  by (simp add: off_screen_def exit_left_miss exit_right_miss)

lemma tick_counters:
  "player_score (tick f g) = player_score (off_screen f (simulate f g))"
  "comp_score (tick f g) = comp_score (off_screen f (simulate f g))"
  "player_lives (tick f g) = player_lives (off_screen f (simulate f g))"
  "comp_lives (tick f g) = comp_lives (off_screen f (simulate f g))"
  "ball (tick f g) = ball (off_screen f (simulate f g))"
  by (simp_all add: tick_def)

text \<open>
  C1. In every tick, with the ball as the movement and the paddle collisions of that tick
  left it: if the right bound of the ball is below 0, the computer's score goes up by
  exactly 1, the player's lives go down by exactly 1, the other two counters keep their
  values and the ball is reset; if the left bound of the ball is beyond the field width, the
  player's score goes up by exactly 1, the computer's lives go down by exactly 1, the other
  two counters keep their values and the ball is reset; otherwise no counter changes and
  the ball is not reset. The two conditions cannot hold of the same ball, and after a left
  exit the right-exit check, which then sees the reset ball, does not fire.
\<close>

theorem off_screen_scoring:
  "(rect_right (rect (ball (simulate f g))) < 0 \<longrightarrow>
      comp_score (tick f g) = comp_score g + 1 \<and>
      player_lives (tick f g) = player_lives g - 1 \<and>
      player_score (tick f g) = player_score g \<and>
      comp_lives (tick f g) = comp_lives g \<and>
      ball (tick f g) = Ball_reset (picks_left_exit f) (ball (simulate f g))) \<and>
   (rect_left (rect (ball (simulate f g))) > SCREEN_WIDTH \<longrightarrow>
      player_score (tick f g) = player_score g + 1 \<and>
      comp_lives (tick f g) = comp_lives g - 1 \<and>
      comp_score (tick f g) = comp_score g \<and>
      player_lives (tick f g) = player_lives g \<and>
      ball (tick f g) = Ball_reset (picks_right_exit f) (ball (simulate f g))) \<and>
   (\<not> rect_right (rect (ball (simulate f g))) < 0 \<and>
    \<not> rect_left (rect (ball (simulate f g))) > SCREEN_WIDTH \<longrightarrow>
      player_score (tick f g) = player_score g \<and>
      comp_score (tick f g) = comp_score g \<and>
      player_lives (tick f g) = player_lives g \<and>
      comp_lives (tick f g) = comp_lives g \<and>
      ball (tick f g) = ball (simulate f g)) \<and>
   \<not> (rect_right (rect (ball (simulate f g))) < 0 \<and>
      rect_left (rect (ball (simulate f g))) > SCREEN_WIDTH) \<and>
   \<not> (rect_right (rect (ball (simulate f g))) < 0 \<and>
      rect_left (rect (ball (exit_left f (simulate f g)))) > SCREEN_WIDTH)"
proof -
  have left: "rect_right (rect (ball (simulate f g))) < 0 \<Longrightarrow>
      comp_score (tick f g) = comp_score g + 1 \<and>
      player_lives (tick f g) = player_lives g - 1 \<and>
      player_score (tick f g) = player_score g \<and>
      comp_lives (tick f g) = comp_lives g \<and>
      ball (tick f g) = Ball_reset (picks_left_exit f) (ball (simulate f g))"
    by (simp add: tick_counters off_screen_left)
  have right: "rect_left (rect (ball (simulate f g))) > SCREEN_WIDTH \<Longrightarrow>
      player_score (tick f g) = player_score g + 1 \<and>
      comp_lives (tick f g) = comp_lives g - 1 \<and>
      comp_score (tick f g) = comp_score g \<and>
      player_lives (tick f g) = player_lives g \<and>
      ball (tick f g) = Ball_reset (picks_right_exit f) (ball (simulate f g))"
    by (simp add: tick_counters off_screen_right)
  have none: "\<not> rect_right (rect (ball (simulate f g))) < 0 \<Longrightarrow>
      \<not> rect_left (rect (ball (simulate f g))) > SCREEN_WIDTH \<Longrightarrow>
      player_score (tick f g) = player_score g \<and>
      comp_score (tick f g) = comp_score g \<and>
      player_lives (tick f g) = player_lives g \<and>
      comp_lives (tick f g) = comp_lives g \<and>
      ball (tick f g) = ball (simulate f g)"
    by (simp add: tick_counters off_screen_none)
  from left right none exits_exclusive [of "rect (ball (simulate f g))"]
    no_right_exit_after_left_exit [of "simulate f g" f]
  show ?thesis by blast
qed


theorem off_screen_scoring_witness:
  "rect_right (rect (ball (simulate idle_frame (ball_at (- 15) 290 kickoff)))) < 0 \<and>
   comp_score (tick idle_frame (ball_at (- 15) 290 kickoff)) = 1 \<and>
   player_lives (tick idle_frame (ball_at (- 15) 290 kickoff)) = 2 \<and>
   player_score (tick idle_frame (ball_at (- 15) 290 kickoff)) = 0 \<and>
   comp_lives (tick idle_frame (ball_at (- 15) 290 kickoff)) = 3 \<and>
   rect_left (rect (ball (simulate idle_frame
     (ball_at 795 290 (init_game no_assets (Pos, Neg)))))) > SCREEN_WIDTH \<and>
   player_score (tick idle_frame (ball_at 795 290 (init_game no_assets (Pos, Neg)))) = 1 \<and>
   comp_lives (tick idle_frame (ball_at 795 290 (init_game no_assets (Pos, Neg)))) = 2 \<and>
   comp_score (tick idle_frame (ball_at 795 290 (init_game no_assets (Pos, Neg)))) = 0 \<and>
   player_lives (tick idle_frame (ball_at 795 290 (init_game no_assets (Pos, Neg)))) = 3 \<and>
   \<not> rect_right (rect (ball (simulate idle_frame kickoff))) < 0 \<and>
   \<not> rect_left (rect (ball (simulate idle_frame kickoff))) > SCREEN_WIDTH \<and>
   player_score (tick idle_frame kickoff) = 0 \<and> comp_score (tick idle_frame kickoff) = 0 \<and>
   player_lives (tick idle_frame kickoff) = 3 \<and> comp_lives (tick idle_frame kickoff) = 3"
proof -
  have l: "rect_right (rect (ball (simulate idle_frame (ball_at (- 15) 290 kickoff)))) < 0"
    by (simp add: Ball_update_rect sample_defs settings rect_defs)
  have r: "rect_left (rect (ball (simulate idle_frame
      (ball_at 795 290 (init_game no_assets (Pos, Neg)))))) > SCREEN_WIDTH"
    by (simp add: Ball_update_rect sample_defs settings rect_defs)
  have n: "\<not> rect_right (rect (ball (simulate idle_frame kickoff))) < 0 \<and>
      \<not> rect_left (rect (ball (simulate idle_frame kickoff))) > SCREEN_WIDTH"
    by (simp add: Ball_update_rect sample_defs settings rect_defs)
  have c0: "player_score (ball_at (- 15) 290 kickoff) = 0 \<and>
      comp_score (ball_at (- 15) 290 kickoff) = 0 \<and>
      player_lives (ball_at (- 15) 290 kickoff) = 3 \<and>
      comp_lives (ball_at (- 15) 290 kickoff) = 3"
    by (simp add: sample_defs settings)
  have c1: "player_score (ball_at 795 290 (init_game no_assets (Pos, Neg))) = 0 \<and>
      comp_score (ball_at 795 290 (init_game no_assets (Pos, Neg))) = 0 \<and>
      player_lives (ball_at 795 290 (init_game no_assets (Pos, Neg))) = 3 \<and>
      comp_lives (ball_at 795 290 (init_game no_assets (Pos, Neg))) = 3"
    by (simp add: sample_defs settings)
  have c2: "player_score kickoff = 0 \<and> comp_score kickoff = 0 \<and>
      player_lives kickoff = 3 \<and> comp_lives kickoff = 3"
    by (simp add: sample_defs settings)
  from l off_screen_scoring [of idle_frame "ball_at (- 15) 290 kickoff"]
  have a: "comp_score (tick idle_frame (ball_at (- 15) 290 kickoff))
        = comp_score (ball_at (- 15) 290 kickoff) + 1 \<and>
      player_lives (tick idle_frame (ball_at (- 15) 290 kickoff))
        = player_lives (ball_at (- 15) 290 kickoff) - 1 \<and>
      player_score (tick idle_frame (ball_at (- 15) 290 kickoff))
        = player_score (ball_at (- 15) 290 kickoff) \<and>
      comp_lives (tick idle_frame (ball_at (- 15) 290 kickoff))
        = comp_lives (ball_at (- 15) 290 kickoff)"
    by blast
  from r off_screen_scoring [of idle_frame "ball_at 795 290 (init_game no_assets (Pos, Neg))"]
  have b: "player_score (tick idle_frame (ball_at 795 290 (init_game no_assets (Pos, Neg))))
        = player_score (ball_at 795 290 (init_game no_assets (Pos, Neg))) + 1 \<and>
      comp_lives (tick idle_frame (ball_at 795 290 (init_game no_assets (Pos, Neg))))
        = comp_lives (ball_at 795 290 (init_game no_assets (Pos, Neg))) - 1 \<and>
      comp_score (tick idle_frame (ball_at 795 290 (init_game no_assets (Pos, Neg))))
        = comp_score (ball_at 795 290 (init_game no_assets (Pos, Neg))) \<and>
      player_lives (tick idle_frame (ball_at 795 290 (init_game no_assets (Pos, Neg))))
        = player_lives (ball_at 795 290 (init_game no_assets (Pos, Neg)))"
    by blast
  from n off_screen_scoring [of idle_frame kickoff]
  have c: "player_score (tick idle_frame kickoff) = player_score kickoff \<and>
      comp_score (tick idle_frame kickoff) = comp_score kickoff \<and>
      player_lives (tick idle_frame kickoff) = player_lives kickoff \<and>
      comp_lives (tick idle_frame kickoff) = comp_lives kickoff"
    by blast
  from l r n show ?thesis
    by (simp add: a b c c0 c1 c2)
qed

lemma exit_left_mono:
  "comp_score g \<le> comp_score (exit_left f g) \<and> player_lives (exit_left f g) \<le> player_lives g"
  by (simp add: exit_left_def)

lemma exit_right_mono:
  "player_score g \<le> player_score (exit_right f g) \<and> comp_lives (exit_right f g) \<le> comp_lives g"
  by (simp add: exit_right_def)

lemma tick_mono:
  "player_score g \<le> player_score (tick f g) \<and> comp_score g \<le> comp_score (tick f g) \<and>
   player_lives (tick f g) \<le> player_lives g \<and> comp_lives (tick f g) \<le> comp_lives g"
  using exit_right_mono [of "exit_left f (simulate f g)" f] exit_left_mono [of "simulate f g" f]
  by (simp add: tick_def off_screen_def)

lemma main_loop_mono:
  "player_score g \<le> player_score (main_loop fs g) \<and>
   comp_score g \<le> comp_score (main_loop fs g) \<and>
   player_lives (main_loop fs g) \<le> player_lives g \<and>
   comp_lives (main_loop fs g) \<le> comp_lives g"
proof (induction fs arbitrary: g)
  case Nil
  show ?case by simp
next
  case (Cons f fs)
  show ?case
  proof (cases "running g")
    case True
    with Cons.IH [of "tick f g"] tick_mono [of g f] show ?thesis by simp
  next
    case False
    then show ?thesis by simp
  qed
qed

lemma init_counters:
  "player_score (init_game files picks) = 0 \<and> comp_score (init_game files picks) = 0 \<and>
   player_lives (init_game files picks) = STARTING_LIVES \<and>
   comp_lives (init_game files picks) = STARTING_LIVES \<and> running (init_game files picks)"
  by (simp add: init_game_def)

text \<open>
  C8. Both scores start at 0 and both lives counters at \<open>STARTING_LIVES\<close>, which is 3.
  No tick lowers a score or raises a lives counter, and neither does any run of the main
  loop from any state; so in every state reached from the start of a game the scores are
  non-negative (and integers by their type) and the lives are at most 3.
\<close>

theorem scores_up_lives_down:
  "player_score (init_game files picks) = 0 \<and> comp_score (init_game files picks) = 0 \<and>
   player_lives (init_game files picks) = 3 \<and> comp_lives (init_game files picks) = 3 \<and>
   STARTING_LIVES = 3 \<and>
   player_score g \<le> player_score (tick f g) \<and> comp_score g \<le> comp_score (tick f g) \<and>
   player_lives (tick f g) \<le> player_lives g \<and> comp_lives (tick f g) \<le> comp_lives g \<and>
   player_score g \<le> player_score (main_loop fs g) \<and>
   comp_score g \<le> comp_score (main_loop fs g) \<and>
   player_lives (main_loop fs g) \<le> player_lives g \<and>
   comp_lives (main_loop fs g) \<le> comp_lives g \<and>
   0 \<le> player_score (main_loop fs (init_game files picks)) \<and>
   0 \<le> comp_score (main_loop fs (init_game files picks)) \<and>
   player_lives (main_loop fs (init_game files picks)) \<le> 3 \<and>
   comp_lives (main_loop fs (init_game files picks)) \<le> 3"
  using init_counters [of files picks] tick_mono [of g f] main_loop_mono [of g fs]
    main_loop_mono [of "init_game files picks" fs]
  by (simp add: settings)

section \<open>The end of the game\<close>

lemma running_game_over:
  "running (game_over g) = (running g \<and> \<not> (player_lives g \<le> 0 \<or> comp_lives g \<le> 0))"
  by (simp add: game_over_def)

lemma running_off_screen: "running (off_screen f g) = running g"
  by (simp add: off_screen_def)

lemma running_tick:
  "running (tick f g) =
     (running g \<and> \<not> ev_quit f \<and>
      \<not> (player_lives (tick f g) \<le> 0 \<or> comp_lives (tick f g) \<le> 0))"
  by (simp add: tick_def running_game_over running_off_screen)

lemma main_loop_stopped: "\<not> running g \<Longrightarrow> main_loop fs g = g"
  by (cases fs) simp_all

lemma main_loop_append: "main_loop (fs @ fs') g = main_loop fs' (main_loop fs g)"
proof (induction fs arbitrary: g)
  case Nil
  show ?case by simp
next
  case (Cons f fs)
  then show ?case by (simp add: main_loop_stopped)
qed

lemma main_loop_alive:
  "running g \<longrightarrow> 0 < player_lives g \<and> 0 < comp_lives g \<Longrightarrow>
   running (main_loop fs g) \<longrightarrow>
     0 < player_lives (main_loop fs g) \<and> 0 < comp_lives (main_loop fs g)"
proof (induction fs arbitrary: g)
  case Nil
  then show ?case by simp
next
  case (Cons f fs)
  show ?case
  proof (cases "running g")
    case True
    have "running (tick f g) \<longrightarrow> 0 < player_lives (tick f g) \<and> 0 < comp_lives (tick f g)"
      using running_tick [of f g] by auto
    from Cons.IH [OF this] True show ?thesis by simp
  next
    case False
    then show ?thesis by simp
  qed
qed

text \<open>
  A QUIT event stops the loop as well: the tick in which it arrives runs to its end and
  leaves \<open>running\<close> false, with three lives on either side.
\<close>

theorem quit_stops_stepping_with_lives_left:
  "\<not> running (tick (idle_frame\<lparr>ev_quit := True\<rparr>) kickoff) \<and>
   \<not> (player_lives (tick (idle_frame\<lparr>ev_quit := True\<rparr>) kickoff) \<le> 0 \<or>
      comp_lives (tick (idle_frame\<lparr>ev_quit := True\<rparr>) kickoff) \<le> 0)"
  by code_simp

text \<open>
  C2, as amended. A tick that starts with the loop running ends with the loop stopped if and
  only if, at the end of that tick, the player's lives or the computer's lives are at most 0,
  or a QUIT event was received in that tick. In every state reached from the start of a
  game, lives at most 0 on either side mean that the loop has stopped. Once the loop has
  stopped, no later frame changes anything: the state, and with it every score and lives
  counter, stays as it is.
\<close>

theorem game_over_stops_the_loop:
  "(running g \<longrightarrow>
      (\<not> running (tick f g)) =
        (player_lives (tick f g) \<le> 0 \<or> comp_lives (tick f g) \<le> 0 \<or> ev_quit f)) \<and>
   (player_lives (main_loop fs (init_game files picks)) \<le> 0 \<or>
    comp_lives (main_loop fs (init_game files picks)) \<le> 0 \<longrightarrow>
      \<not> running (main_loop fs (init_game files picks))) \<and>
   (\<not> running g \<longrightarrow> main_loop fs g = g) \<and>
   (\<not> running (main_loop fs g) \<longrightarrow> main_loop (fs @ fs') g = main_loop fs g)"
proof -
  have a: "running g \<longrightarrow>
      (\<not> running (tick f g)) =
        (player_lives (tick f g) \<le> 0 \<or> comp_lives (tick f g) \<le> 0 \<or> ev_quit f)"
    using running_tick [of f g] by auto
  have "running (init_game files picks) \<longrightarrow>
      0 < player_lives (init_game files picks) \<and> 0 < comp_lives (init_game files picks)"
    by (simp add: init_counters settings)
  from main_loop_alive [OF this, of fs]
  have b: "player_lives (main_loop fs (init_game files picks)) \<le> 0 \<or>
    comp_lives (main_loop fs (init_game files picks)) \<le> 0 \<longrightarrow>
      \<not> running (main_loop fs (init_game files picks))"
    by auto
  have c: "\<not> running g \<longrightarrow> main_loop fs g = g"
    by (simp add: main_loop_stopped)
  have d: "\<not> running (main_loop fs g) \<longrightarrow> main_loop (fs @ fs') g = main_loop fs g"
    by (simp add: main_loop_append main_loop_stopped)
  from a b c d show ?thesis by blast
qed

theorem game_over_stops_the_loop_witness:
  "running last_life \<and>
   player_lives (tick idle_frame last_life) = 0 \<and>
   \<not> ev_quit idle_frame \<and>
   \<not> running (tick idle_frame last_life) \<and>
   \<not> running (main_loop [idle_frame] last_life) \<and>
   main_loop ([idle_frame] @ [idle_frame, idle_frame]) last_life = main_loop [idle_frame] last_life \<and>
   main_loop [idle_frame, idle_frame] (tick idle_frame last_life) = tick idle_frame last_life \<and>
   running kickoff \<and>
   0 < player_lives (tick idle_frame kickoff) \<and> 0 < comp_lives (tick idle_frame kickoff) \<and>
   running (tick idle_frame kickoff) \<and>
   player_lives (main_loop (replicate 177 left_serve) (init_game no_assets (Neg, Neg))) \<le> 0 \<and>
   \<not> running (main_loop (replicate 177 left_serve) (init_game no_assets (Neg, Neg)))"
proof -
  have r: "running last_life \<and> running kickoff \<and> \<not> ev_quit idle_frame"
    by (simp add: last_life_def sample_defs)
  have l: "player_lives (tick idle_frame last_life) = 0"
    by code_simp
  have k: "0 < player_lives (tick idle_frame kickoff) \<and> 0 < comp_lives (tick idle_frame kickoff)"
    by code_simp
  have e: "player_lives (main_loop (replicate 177 left_serve) (init_game no_assets (Neg, Neg))) \<le> 0"
    by code_simp
  from game_over_stops_the_loop [of last_life idle_frame "[idle_frame]" no_assets "(Neg, Neg)"
      "[idle_frame, idle_frame]"] r l
  have s: "\<not> running (tick idle_frame last_life)"
    by simp
  with r have s': "\<not> running (main_loop [idle_frame] last_life)"
    by simp
  from game_over_stops_the_loop [of last_life idle_frame "[idle_frame]" no_assets "(Neg, Neg)"
      "[idle_frame, idle_frame]"] s'
  have m: "main_loop ([idle_frame] @ [idle_frame, idle_frame]) last_life
      = main_loop [idle_frame] last_life"
    by blast
  from game_over_stops_the_loop [of "tick idle_frame last_life" idle_frame
      "[idle_frame, idle_frame]" no_assets "(Neg, Neg)" "[]"] s
  have m': "main_loop [idle_frame, idle_frame] (tick idle_frame last_life)
      = tick idle_frame last_life"
    by blast
  from game_over_stops_the_loop [of kickoff idle_frame "[]" no_assets "(Neg, Neg)" "[]"] r k
  have u: "running (tick idle_frame kickoff)"
    by auto
  from game_over_stops_the_loop [of kickoff idle_frame "replicate 177 left_serve" no_assets
      "(Neg, Neg)" "[]"] e
  have z: "\<not> running (main_loop (replicate 177 left_serve) (init_game no_assets (Neg, Neg)))"
    by blast
  from r l k s s' m m' u e z show ?thesis by blast
qed

section \<open>Paddle collisions and the speed of the ball\<close>

lemma hit_player_speed:
  "speed_x (ball (hit_player f g)) =
     (if colliderect (rect (ball g)) (rect (player_paddle g)) \<and> speed_x (ball g) < 0
      then - speed_x (ball g) else speed_x (ball g))"
  "speed_y (ball (hit_player f g)) =
     (if colliderect (rect (ball g)) (rect (player_paddle g)) \<and> speed_x (ball g) < 0
      then speed_y (ball g) + random_choice (pick_player_hit f) else speed_y (ball g))"
  by (simp_all add: hit_player_def)

lemma hit_comp_speed:
  "speed_x (ball (hit_comp f g)) =
     (if colliderect (rect (ball g)) (rect (comp_paddle g)) \<and> speed_x (ball g) > 0
      then - speed_x (ball g) else speed_x (ball g))"
  "speed_y (ball (hit_comp f g)) =
     (if colliderect (rect (ball g)) (rect (comp_paddle g)) \<and> speed_x (ball g) > 0
      then speed_y (ball g) + random_choice (pick_comp_hit f) else speed_y (ball g))"
  by (simp_all add: hit_comp_def)

lemma random_choice_cases: "random_choice c = 1 \<or> random_choice c = - 1"
  by (cases c) simp_all

lemma paddle_collisions_speed:
  "speed_x (ball (paddle_collisions f g)) =
     (if colliderect (rect (ball g)) (rect (comp_paddle g)) \<and> speed_x (ball (hit_player f g)) > 0
      then - speed_x (ball (hit_player f g)) else speed_x (ball (hit_player f g)))"
  "speed_y (ball (paddle_collisions f g)) =
     (if colliderect (rect (ball g)) (rect (comp_paddle g)) \<and> speed_x (ball (hit_player f g)) > 0
      then speed_y (ball (hit_player f g)) + random_choice (pick_comp_hit f)
      else speed_y (ball (hit_player f g)))"
  by (simp_all add: paddle_collisions_def hit_comp_speed)

lemma not_both_paddles:
  "rect_right p + int (rect_w b) \<le> rect_left c \<Longrightarrow> \<not> (colliderect b p \<and> colliderect b c)"
  by (simp add: colliderect_def rect_defs)

lemma Paddle_update_side:
  "rect_x (rect (Paddle_update dy p)) = rect_x (rect p) \<and>
   rect_w (rect (Paddle_update dy p)) = rect_w (rect p)"
  by (simp add: Paddle_update_def Let_def rect_defs)

lemma computer_ai_side:
  "rect_x (rect (comp_paddle (computer_ai g))) = rect_x (rect (comp_paddle g)) \<and>
   rect_w (rect (comp_paddle (computer_ai g))) = rect_w (rect (comp_paddle g))"
  by (simp add: computer_ai_def Paddle_update_side)

lemma exit_width:
  "rect_w (rect (ball (exit_left f g))) = rect_w (rect (ball g))"
  "rect_w (rect (ball (exit_right f g))) = rect_w (rect (ball g))"
  by (simp_all add: exit_left_def exit_right_def Ball_reset_def Let_def rect_defs)

lemma tick_gap:
  "rect_right (rect (player_paddle (tick f g))) = rect_right (rect (player_paddle g)) \<and>
   rect_left (rect (comp_paddle (tick f g))) = rect_left (rect (comp_paddle g)) \<and>
   rect_w (rect (ball (tick f g))) = rect_w (rect (ball g))"
  by (simp add: tick_player_paddle tick_comp_paddle tick_counters off_screen_def exit_width
      Ball_update_rect Paddle_update_side computer_ai_side rect_right_def rect_left_def)

lemma main_loop_gap:
  "rect_right (rect (player_paddle (main_loop fs g))) = rect_right (rect (player_paddle g)) \<and>
   rect_left (rect (comp_paddle (main_loop fs g))) = rect_left (rect (comp_paddle g)) \<and>
   rect_w (rect (ball (main_loop fs g))) = rect_w (rect (ball g))"
proof (induction fs arbitrary: g)
  case Nil
  show ?case by simp
next
  case (Cons f fs)
  show ?case
  proof (cases "running g")
    case True
    with Cons.IH [of "tick f g"] tick_gap [of f g] show ?thesis by simp
  next
    case False
    then show ?thesis by simp
  qed
qed

lemma init_gap:
  "rect_right (rect (player_paddle (init_game no_assets picks)))
     + int (rect_w (rect (ball (init_game no_assets picks))))
   \<le> rect_left (rect (comp_paddle (init_game no_assets picks)))"
  by (simp add: init_game_def Paddle_init_def Ball_init_def Ball_reset_def Let_def no_assets_def
      load_sprite_def get_rect_def rect_defs settings)

lemma before_collisions_gap:
  "rect_right (rect (player_paddle (update_ball (computer_ai (player_input f (process_events f g))))))
     = rect_right (rect (player_paddle g)) \<and>
   rect_left (rect (comp_paddle (update_ball (computer_ai (player_input f (process_events f g))))))
     = rect_left (rect (comp_paddle g)) \<and>
   rect_w (rect (ball (update_ball (computer_ai (player_input f (process_events f g))))))
     = rect_w (rect (ball g))"
  by (simp add: Ball_update_rect Paddle_update_side rect_right_def rect_left_def)
     (simp add: computer_ai_def Paddle_update_side)

lemma default_game_one_paddle_at_a_time:
  "\<not> (colliderect
        (rect (ball (update_ball (computer_ai (player_input f (process_events f
           (main_loop fs (init_game no_assets picks))))))))
        (rect (player_paddle (update_ball (computer_ai (player_input f (process_events f
           (main_loop fs (init_game no_assets picks)))))))) \<and>
      colliderect
        (rect (ball (update_ball (computer_ai (player_input f (process_events f
           (main_loop fs (init_game no_assets picks))))))))
        (rect (comp_paddle (update_ball (computer_ai (player_input f (process_events f
           (main_loop fs (init_game no_assets picks)))))))))"
  using init_gap [of picks] main_loop_gap [of fs "init_game no_assets picks"]
    before_collisions_gap [of f "main_loop fs (init_game no_assets picks)"]
  by (intro not_both_paddles) simp

text \<open>
  C4. If the ball overlaps the player's paddle while its horizontal speed is negative, the
  player-paddle response negates the horizontal speed, which is then positive (away from
  that paddle), and adds the pick, 1 or -1, to the vertical speed. If the ball overlaps the
  computer's paddle while its horizontal speed is positive, the computer-paddle response
  negates the horizontal speed, which is then negative, and adds its own pick to the
  vertical speed. In a tick the player-paddle check runs first and the computer-paddle
  check sees its result: a ball that overlaps both paddles while moving left is turned
  twice, while one moving right is turned once. In a game with the default sprites the ball
  never overlaps both paddles at the collision check of any tick.
\<close>

theorem paddle_collision_response:
  "(colliderect (rect (ball g)) (rect (player_paddle g)) \<and> speed_x (ball g) < 0 \<longrightarrow>
      speed_x (ball (hit_player f g)) = - speed_x (ball g) \<and>
      0 < speed_x (ball (hit_player f g)) \<and>
      speed_y (ball (hit_player f g)) = speed_y (ball g) + random_choice (pick_player_hit f) \<and>
      (speed_y (ball (hit_player f g)) - speed_y (ball g) = 1 \<or>
       speed_y (ball (hit_player f g)) - speed_y (ball g) = - 1)) \<and>
   (colliderect (rect (ball g)) (rect (comp_paddle g)) \<and> speed_x (ball g) > 0 \<longrightarrow>
      speed_x (ball (hit_comp f g)) = - speed_x (ball g) \<and>
      speed_x (ball (hit_comp f g)) < 0 \<and>
      speed_y (ball (hit_comp f g)) = speed_y (ball g) + random_choice (pick_comp_hit f) \<and>
      (speed_y (ball (hit_comp f g)) - speed_y (ball g) = 1 \<or>
       speed_y (ball (hit_comp f g)) - speed_y (ball g) = - 1)) \<and>
   simulate f g =
     paddle_collisions f (update_ball (computer_ai (player_input f (process_events f g)))) \<and>
   (colliderect (rect (ball g)) (rect (player_paddle g)) \<and> speed_x (ball g) < 0 \<and>
    \<not> colliderect (rect (ball g)) (rect (comp_paddle g)) \<longrightarrow>
      speed_x (ball (paddle_collisions f g)) = - speed_x (ball g) \<and>
      0 < speed_x (ball (paddle_collisions f g)) \<and>
      speed_y (ball (paddle_collisions f g))
        = speed_y (ball g) + random_choice (pick_player_hit f)) \<and>
   (colliderect (rect (ball g)) (rect (comp_paddle g)) \<and> speed_x (ball g) > 0 \<longrightarrow>
      speed_x (ball (paddle_collisions f g)) = - speed_x (ball g) \<and>
      speed_x (ball (paddle_collisions f g)) < 0 \<and>
      speed_y (ball (paddle_collisions f g))
        = speed_y (ball g) + random_choice (pick_comp_hit f)) \<and>
   (colliderect (rect (ball g)) (rect (player_paddle g)) \<and>
    colliderect (rect (ball g)) (rect (comp_paddle g)) \<and> speed_x (ball g) < 0 \<longrightarrow>
      speed_x (ball (paddle_collisions f g)) = speed_x (ball g) \<and>
      speed_y (ball (paddle_collisions f g))
        = speed_y (ball g) + random_choice (pick_player_hit f)
            + random_choice (pick_comp_hit f)) \<and>
   \<not> (colliderect
        (rect (ball (update_ball (computer_ai (player_input f (process_events f
           (main_loop fs (init_game no_assets picks))))))))
        (rect (player_paddle (update_ball (computer_ai (player_input f (process_events f
           (main_loop fs (init_game no_assets picks)))))))) \<and>
      colliderect
        (rect (ball (update_ball (computer_ai (player_input f (process_events f
           (main_loop fs (init_game no_assets picks))))))))
        (rect (comp_paddle (update_ball (computer_ai (player_input f (process_events f
           (main_loop fs (init_game no_assets picks)))))))))"
proof -
  have p: "colliderect (rect (ball g)) (rect (player_paddle g)) \<and> speed_x (ball g) < 0 \<longrightarrow>
      speed_x (ball (hit_player f g)) = - speed_x (ball g) \<and>
      0 < speed_x (ball (hit_player f g)) \<and>
      speed_y (ball (hit_player f g)) = speed_y (ball g) + random_choice (pick_player_hit f) \<and>
      (speed_y (ball (hit_player f g)) - speed_y (ball g) = 1 \<or>
       speed_y (ball (hit_player f g)) - speed_y (ball g) = - 1)"
    using random_choice_cases [of "pick_player_hit f"] by (simp add: hit_player_speed)
  have c: "colliderect (rect (ball g)) (rect (comp_paddle g)) \<and> speed_x (ball g) > 0 \<longrightarrow>
      speed_x (ball (hit_comp f g)) = - speed_x (ball g) \<and>
      speed_x (ball (hit_comp f g)) < 0 \<and>
      speed_y (ball (hit_comp f g)) = speed_y (ball g) + random_choice (pick_comp_hit f) \<and>
      (speed_y (ball (hit_comp f g)) - speed_y (ball g) = 1 \<or>
       speed_y (ball (hit_comp f g)) - speed_y (ball g) = - 1)"
    using random_choice_cases [of "pick_comp_hit f"] by (simp add: hit_comp_speed)
  have p_only: "colliderect (rect (ball g)) (rect (player_paddle g)) \<and> speed_x (ball g) < 0 \<and>
    \<not> colliderect (rect (ball g)) (rect (comp_paddle g)) \<longrightarrow>
      speed_x (ball (paddle_collisions f g)) = - speed_x (ball g) \<and>
      0 < speed_x (ball (paddle_collisions f g)) \<and>
      speed_y (ball (paddle_collisions f g))
        = speed_y (ball g) + random_choice (pick_player_hit f)"
    by (simp add: paddle_collisions_speed hit_player_speed)
  have c_any: "colliderect (rect (ball g)) (rect (comp_paddle g)) \<and> speed_x (ball g) > 0 \<longrightarrow>
      speed_x (ball (paddle_collisions f g)) = - speed_x (ball g) \<and>
      speed_x (ball (paddle_collisions f g)) < 0 \<and>
      speed_y (ball (paddle_collisions f g))
        = speed_y (ball g) + random_choice (pick_comp_hit f)"
    by (simp add: paddle_collisions_speed hit_player_speed)
  have both: "colliderect (rect (ball g)) (rect (player_paddle g)) \<and>
    colliderect (rect (ball g)) (rect (comp_paddle g)) \<and> speed_x (ball g) < 0 \<longrightarrow>
      speed_x (ball (paddle_collisions f g)) = speed_x (ball g) \<and>
      speed_y (ball (paddle_collisions f g))
        = speed_y (ball g) + random_choice (pick_player_hit f)
            + random_choice (pick_comp_hit f)"
    by (simp add: paddle_collisions_speed hit_player_speed)
  have sim: "simulate f g =
     paddle_collisions f (update_ball (computer_ai (player_input f (process_events f g))))"
    by (simp add: simulate_def)
  from p c p_only c_any both sim default_game_one_paddle_at_a_time [of f fs picks]
  show ?thesis by blast
qed

theorem paddle_collision_response_witness:
  "colliderect (rect (ball (ball_at 47 270 kickoff)))
     (rect (player_paddle (ball_at 47 270 kickoff))) \<and>
   \<not> colliderect (rect (ball (ball_at 47 270 kickoff)))
     (rect (comp_paddle (ball_at 47 270 kickoff))) \<and>
   speed_x (ball (ball_at 47 270 kickoff)) = - 7 \<and>
   speed_y (ball (ball_at 47 270 kickoff)) = - 7 \<and>
   speed_x (ball (hit_player idle_frame (ball_at 47 270 kickoff))) = 7 \<and>
   speed_y (ball (hit_player idle_frame (ball_at 47 270 kickoff))) = - 6 \<and>
   speed_x (ball (paddle_collisions idle_frame (ball_at 47 270 kickoff))) = 7 \<and>
   speed_y (ball (paddle_collisions (idle_frame\<lparr>pick_player_hit := Neg\<rparr>)
     (ball_at 47 270 kickoff))) = - 8 \<and>
   colliderect (rect (ball (ball_at 733 270 (init_game no_assets (Pos, Neg)))))
     (rect (comp_paddle (ball_at 733 270 (init_game no_assets (Pos, Neg))))) \<and>
   speed_x (ball (ball_at 733 270 (init_game no_assets (Pos, Neg)))) = 7 \<and>
   speed_x (ball (hit_comp idle_frame (ball_at 733 270 (init_game no_assets (Pos, Neg))))) = - 7 \<and>
   speed_x (ball (paddle_collisions idle_frame
     (ball_at 733 270 (init_game no_assets (Pos, Neg))))) = - 7 \<and>
   speed_y (ball (paddle_collisions idle_frame
     (ball_at 733 270 (init_game no_assets (Pos, Neg))))) = - 6 \<and>
   colliderect (rect (ball (init_game wide_ball (Neg, Neg))))
     (rect (player_paddle (init_game wide_ball (Neg, Neg)))) \<and>
   colliderect (rect (ball (init_game wide_ball (Neg, Neg))))
     (rect (comp_paddle (init_game wide_ball (Neg, Neg)))) \<and>
   speed_x (ball (paddle_collisions idle_frame (init_game wide_ball (Neg, Neg)))) = - 7 \<and>
   speed_y (ball (paddle_collisions idle_frame (init_game wide_ball (Neg, Neg)))) = - 5"
proof -
  have h1: "colliderect (rect (ball (ball_at 47 270 kickoff)))
       (rect (player_paddle (ball_at 47 270 kickoff))) \<and>
     \<not> colliderect (rect (ball (ball_at 47 270 kickoff)))
       (rect (comp_paddle (ball_at 47 270 kickoff))) \<and>
     speed_x (ball (ball_at 47 270 kickoff)) < 0"
    by (simp add: colliderect_def sample_defs settings rect_defs)
  have v1: "speed_x (ball (ball_at 47 270 kickoff)) = - 7 \<and>
     speed_y (ball (ball_at 47 270 kickoff)) = - 7"
    by (simp add: sample_defs)
  have h2: "colliderect (rect (ball (ball_at 733 270 (init_game no_assets (Pos, Neg)))))
       (rect (comp_paddle (ball_at 733 270 (init_game no_assets (Pos, Neg))))) \<and>
     speed_x (ball (ball_at 733 270 (init_game no_assets (Pos, Neg)))) > 0"
    by (simp add: colliderect_def sample_defs settings rect_defs)
  have v2: "speed_x (ball (ball_at 733 270 (init_game no_assets (Pos, Neg)))) = 7 \<and>
     speed_y (ball (ball_at 733 270 (init_game no_assets (Pos, Neg)))) = - 7"
    by (simp add: sample_defs)
  have h3: "colliderect (rect (ball (init_game wide_ball (Neg, Neg))))
       (rect (player_paddle (init_game wide_ball (Neg, Neg)))) \<and>
     colliderect (rect (ball (init_game wide_ball (Neg, Neg))))
       (rect (comp_paddle (init_game wide_ball (Neg, Neg)))) \<and>
     speed_x (ball (init_game wide_ball (Neg, Neg))) < 0"
    by (simp add: colliderect_def wide_ball_def sample_defs settings rect_defs)
  have v3: "speed_x (ball (init_game wide_ball (Neg, Neg))) = - 7 \<and>
     speed_y (ball (init_game wide_ball (Neg, Neg))) = - 7"
    by (simp add: sample_defs)
  have picks: "random_choice (pick_player_hit idle_frame) = 1 \<and>
     random_choice (pick_comp_hit idle_frame) = 1 \<and>
     random_choice (pick_player_hit (idle_frame\<lparr>pick_player_hit := Neg\<rparr>)) = - 1"
    by (simp add: idle_frame_def)
  from h1 paddle_collision_response [of "ball_at 47 270 kickoff" idle_frame]
  have a: "speed_x (ball (hit_player idle_frame (ball_at 47 270 kickoff)))
        = - speed_x (ball (ball_at 47 270 kickoff)) \<and>
      speed_y (ball (hit_player idle_frame (ball_at 47 270 kickoff)))
        = speed_y (ball (ball_at 47 270 kickoff)) + random_choice (pick_player_hit idle_frame) \<and>
      speed_x (ball (paddle_collisions idle_frame (ball_at 47 270 kickoff)))
        = - speed_x (ball (ball_at 47 270 kickoff))"
    by blast
  from h1 paddle_collision_response
    [of "ball_at 47 270 kickoff" "idle_frame\<lparr>pick_player_hit := Neg\<rparr>"]
  have a': "speed_y (ball (paddle_collisions (idle_frame\<lparr>pick_player_hit := Neg\<rparr>)
        (ball_at 47 270 kickoff)))
      = speed_y (ball (ball_at 47 270 kickoff))
        + random_choice (pick_player_hit (idle_frame\<lparr>pick_player_hit := Neg\<rparr>))"
    by blast
  from h2 paddle_collision_response
    [of "ball_at 733 270 (init_game no_assets (Pos, Neg))" idle_frame]
  have b: "speed_x (ball (hit_comp idle_frame (ball_at 733 270 (init_game no_assets (Pos, Neg)))))
        = - speed_x (ball (ball_at 733 270 (init_game no_assets (Pos, Neg)))) \<and>
      speed_x (ball (paddle_collisions idle_frame
          (ball_at 733 270 (init_game no_assets (Pos, Neg)))))
        = - speed_x (ball (ball_at 733 270 (init_game no_assets (Pos, Neg)))) \<and>
      speed_y (ball (paddle_collisions idle_frame
          (ball_at 733 270 (init_game no_assets (Pos, Neg)))))
        = speed_y (ball (ball_at 733 270 (init_game no_assets (Pos, Neg))))
          + random_choice (pick_comp_hit idle_frame)"
    by blast
  from h3 paddle_collision_response [of "init_game wide_ball (Neg, Neg)" idle_frame]
  have c: "speed_x (ball (paddle_collisions idle_frame (init_game wide_ball (Neg, Neg))))
        = speed_x (ball (init_game wide_ball (Neg, Neg))) \<and>
      speed_y (ball (paddle_collisions idle_frame (init_game wide_ball (Neg, Neg))))
        = speed_y (ball (init_game wide_ball (Neg, Neg)))
          + random_choice (pick_player_hit idle_frame) + random_choice (pick_comp_hit idle_frame)"
    by blast
  from h1 h2 h3 show ?thesis
    by (simp add: a a' b c v1 v2 v3 picks)
qed

section \<open>Speed magnitudes\<close>

lemma simulate_abs_speed_x: "\<bar>speed_x (ball (simulate f g))\<bar> = \<bar>speed_x (ball g)\<bar>"
  by (simp add: simulate_def paddle_collisions_speed hit_player_speed Ball_update_speed_x)

lemma paddle_collisions_abs_speed_x:
  "\<bar>speed_x (ball (paddle_collisions f g))\<bar> = \<bar>speed_x (ball g)\<bar>"
  by (simp add: paddle_collisions_speed hit_player_speed)

lemma exits_abs_speed_x:
  "\<bar>speed_x (ball g)\<bar> = 7 \<Longrightarrow> \<bar>speed_x (ball (exit_left f g))\<bar> = 7"
  "\<bar>speed_x (ball g)\<bar> = 7 \<Longrightarrow> \<bar>speed_x (ball (exit_right f g))\<bar> = 7"
  by (simp_all add: exit_left_def exit_right_def Ball_reset_abs)

lemma tick_abs_speed_x: "\<bar>speed_x (ball g)\<bar> = 7 \<Longrightarrow> \<bar>speed_x (ball (tick f g))\<bar> = 7"
  by (simp add: tick_counters off_screen_def exits_abs_speed_x simulate_abs_speed_x)

lemma main_loop_abs_speed_x:
  "\<bar>speed_x (ball g)\<bar> = 7 \<Longrightarrow> \<bar>speed_x (ball (main_loop fs g))\<bar> = 7"
proof (induction fs arbitrary: g)
  case Nil
  then show ?case by simp
next
  case (Cons f fs)
  show ?case
  proof (cases "running g")
    case True
    with Cons.IH [OF tick_abs_speed_x [OF Cons.prems, of f]] show ?thesis by simp
  next
    case False
    with Cons.prems show ?thesis by simp
  qed
qed

lemma Ball_update_abs_speed_y: "\<bar>speed_y (Ball_update b)\<bar> = \<bar>speed_y b\<bar>"
  using Ball_update_speed_y [of b] by (simp split: if_splits)

text \<open>
  A game without sprite files whose ball starts up and to the left, with the up key held:
  the ball bounces off the top of the field in tick 42 and meets the player's paddle in
  tick 49, after which its vertical speed is 8.
\<close>

theorem paddle_hit_changes_vertical_speed:
  "speed_y (ball (main_loop (replicate 49 (idle_frame\<lparr>key_up := True\<rparr>)) kickoff)) = 8 \<and>
   \<bar>speed_y (ball (main_loop (replicate 49 (idle_frame\<lparr>key_up := True\<rparr>)) kickoff))\<bar> \<noteq> 7"
  by code_simp

text \<open>
  C3, as amended. In every state reached from the start of a game the horizontal speed of
  the ball has magnitude 7. The ball step with its wall bounce keeps the magnitude of both
  speeds, a reset sets both magnitudes to 7, and the paddle collisions keep the magnitude
  of the horizontal speed; each paddle response changes the vertical speed by at most 1
  (by exactly 1 when it fires), so the vertical magnitude need not stay 7.
\<close>

theorem ball_speed_magnitudes:
  "\<bar>speed_x (ball (main_loop fs (init_game files picks)))\<bar> = 7 \<and>
   \<bar>speed_x (Ball_update b)\<bar> = \<bar>speed_x b\<bar> \<and>
   \<bar>speed_y (Ball_update b)\<bar> = \<bar>speed_y b\<bar> \<and>
   \<bar>speed_x (Ball_reset picks' b)\<bar> = 7 \<and>
   \<bar>speed_y (Ball_reset picks' b)\<bar> = 7 \<and>
   \<bar>speed_x (ball (paddle_collisions f g))\<bar> = \<bar>speed_x (ball g)\<bar> \<and>
   \<bar>speed_y (ball (hit_player f g)) - speed_y (ball g)\<bar> \<le> 1 \<and>
   \<bar>speed_y (ball (hit_comp f g)) - speed_y (ball g)\<bar> \<le> 1"
proof -
  have "\<bar>speed_x (ball (init_game files picks))\<bar> = 7"
    by (simp add: init_game_def Ball_init_def Ball_reset_abs)
  from main_loop_abs_speed_x [OF this, of fs]
  have a: "\<bar>speed_x (ball (main_loop fs (init_game files picks)))\<bar> = 7" .
  have b: "\<bar>speed_y (ball (hit_player f g)) - speed_y (ball g)\<bar> \<le> 1"
    using abs_random_choice [of "pick_player_hit f"] by (simp add: hit_player_speed)
  have c: "\<bar>speed_y (ball (hit_comp f g)) - speed_y (ball g)\<bar> \<le> 1"
    using abs_random_choice [of "pick_comp_hit f"] by (simp add: hit_comp_speed)
  from a b c show ?thesis
    by (simp add: Ball_update_speed_x Ball_update_abs_speed_y Ball_reset_abs
        paddle_collisions_abs_speed_x)
qed

end
